theory Spec2Isabelle
  imports Complex_Main
begin

section \<open>JavaScript values\<close>

text \<open>
  The records of app.js are plain JSON objects decoded from the REST API or from
  localStorage. A value is modelled as a JSON tree, with the two extra values that only
  the program can produce: \<open>undefined\<close> (an absent property) and \<open>NaN\<close> (what
  \<open>parseInt\<close> returns on a non-number). Numbers are exact rationals; an object is an
  association list from property names to values.
\<close>

datatype jsval =
    JUndefined
  | JNull
  | JBool bool
  | JNum rat
  | JNaN
  | JStr string
  | JArr "jsval list"
  | JObj "(string \<times> jsval) list"

text \<open>
  What a statement of app.js can throw: reading a property of \<open>null\<close> or
  \<open>undefined\<close>, or calling something that is not a function (both are a TypeError in
  JavaScript; the string names the property that was read or called); converting to a
  string or a number an object that has no usable \<open>toString\<close> (also a TypeError);
  building a string longer than the engine allows (a RangeError).
\<close>

datatype error = CannotRead string | NotAFunction string | CannotConvert | RangeError

datatype 'a result = Returned 'a | Thrown error

text \<open>ToBoolean: what \<open>if (v)\<close>, \<open>!v\<close>, \<open>a || b\<close> and \<open>a && b\<close> test.\<close>

fun truthy :: "jsval \<Rightarrow> bool" where
  "truthy JUndefined = False"
| "truthy JNull = False"
| "truthy (JBool b) = b"
| "truthy (JNum q) = (q \<noteq> 0)"
| "truthy JNaN = False"
| "truthy (JStr s) = (s \<noteq> [])"
| "truthy (JArr xs) = True"
| "truthy (JObj kvs) = True"

text \<open>\<open>a || b\<close> on values.\<close>

definition js_or :: "jsval \<Rightarrow> jsval \<Rightarrow> jsval" where
  "js_or a b = (if truthy a then a else b)"

fun nullish :: "jsval \<Rightarrow> bool" where
  "nullish JUndefined = True"
| "nullish JNull = True"
| "nullish v = False"

fun is_object :: "jsval \<Rightarrow> bool" where
  "is_object (JObj kvs) = True"
| "is_object v = False"

text \<open>
  \<open>v.k\<close> for a value \<open>v\<close> that is neither \<open>null\<close> nor \<open>undefined\<close>, and a
  property name \<open>k\<close> that no built-in prototype defines (every name app.js reads from
  a record is such a name): the property of an object, \<open>undefined\<close> when the object
  does not have it, and \<open>undefined\<close> on a primitive or an array.
\<close>

fun js_get :: "jsval \<Rightarrow> string \<Rightarrow> jsval" where
  "js_get (JObj kvs) k = (case map_of kvs k of None \<Rightarrow> JUndefined | Some v \<Rightarrow> v)"
| "js_get v k = JUndefined"

text \<open>\<open>v.k\<close> in general: reading a property of \<open>null\<close> or \<open>undefined\<close> throws.\<close>

definition read_prop :: "jsval \<Rightarrow> string \<Rightarrow> error + jsval" where
  "read_prop v k = (if nullish v then Inl (CannotRead k) else Inr (js_get v k))"

text \<open>
  Writing a property in an object literal (\<open>{...m, k: v}\<close>): an existing property keeps
  its place and takes the new value, a new one is added at the end.
\<close>

fun set_prop :: "string \<Rightarrow> jsval \<Rightarrow> (string \<times> jsval) list \<Rightarrow> (string \<times> jsval) list" where
  "set_prop k v [] = [(k, v)]"
| "set_prop k v ((k', v') # kvs) =
     (if k' = k then (k, v) # kvs else (k', v') # set_prop k v kvs)"

text \<open>
  \<open>a === b\<close>. Primitives are compared by type and value, and \<open>NaN\<close> differs from
  itself. Objects and arrays are compared by reference: in app.js the two operands of
  every \<open>===\<close> on record fields come from two separate decodings (two API responses, an
  API response and localStorage, an API response and a form field or an HTML
  attribute), so two objects are never the same reference.
\<close>

fun strict_eq :: "jsval \<Rightarrow> jsval \<Rightarrow> bool" where
  "strict_eq JUndefined b = (b = JUndefined)"
| "strict_eq JNull b = (b = JNull)"
| "strict_eq (JBool x) b = (b = JBool x)"
| "strict_eq (JNum x) b = (b = JNum x)"
| "strict_eq JNaN b = False"
| "strict_eq (JStr x) b = (b = JStr x)"
| "strict_eq (JArr xs) b = False"
| "strict_eq (JObj kvs) b = False"

text \<open>SameValueZero, the comparison of \<open>Array.prototype.includes\<close>: \<open>NaN\<close> equals itself.\<close>

definition same_value_zero :: "jsval \<Rightarrow> jsval \<Rightarrow> bool" where
  "same_value_zero a b = (strict_eq a b \<or> (a = JNaN \<and> b = JNaN))"

text \<open>
  Whether a value converts to a primitive (to a string in a template literal or in an
  assignment to \<open>textContent\<close> or \<open>value\<close>, to a number in \<open>-\<close> and \<open>>\<close>, to
  either in \<open>new Date(v)\<close>) without a TypeError. A primitive does. A decoded object
  does unless it has a property of its own named \<open>toString\<close>: that property hides
  \<open>Object.prototype.toString\<close>, is not a function, and \<open>valueOf\<close> gives the object
  back. An array is joined, so it does when its elements do (\<open>null\<close> elements are
  skipped).
\<close>

fun convertible :: "jsval \<Rightarrow> bool" where
  "convertible (JObj kvs) = (map_of kvs ''toString'' = None)"
| "convertible (JArr xs) = list_all convertible xs"
| "convertible v = True"

text \<open>
  \<open>xs.find(p)\<close> on an array: the first element on which the callback is true,
  \<open>undefined\<close> when there is none; a callback that throws ends the search.
\<close>

fun find_js :: "(jsval \<Rightarrow> error + bool) \<Rightarrow> jsval list \<Rightarrow> error + jsval" where
  "find_js p [] = Inr JUndefined"
| "find_js p (x # xs) =
     (case p x of
        Inl e \<Rightarrow> Inl e
      | Inr b \<Rightarrow> if b then Inr x else find_js p xs)"

text \<open>\<open>xs.filter(p)\<close> and \<open>xs.map(f)\<close> with callbacks that may throw.\<close>

fun filter_js :: "(jsval \<Rightarrow> error + bool) \<Rightarrow> jsval list \<Rightarrow> error + jsval list" where
  "filter_js p [] = Inr []"
| "filter_js p (x # xs) =
     (case p x of
        Inl e \<Rightarrow> Inl e
      | Inr b \<Rightarrow>
          (case filter_js p xs of
             Inl e \<Rightarrow> Inl e
           | Inr ys \<Rightarrow> Inr (if b then x # ys else ys)))"

fun map_js :: "(jsval \<Rightarrow> error + 'b) \<Rightarrow> jsval list \<Rightarrow> error + 'b list" where
  "map_js f [] = Inr []"
| "map_js f (x # xs) =
     (case f x of
        Inl e \<Rightarrow> Inl e
      | Inr y \<Rightarrow>
          (case map_js f xs of
             Inl e \<Rightarrow> Inl e
           | Inr ys \<Rightarrow> Inr (y # ys)))"

section \<open>The platform\<close>

text \<open>
  Built-ins of the browser that app.js calls and that are not part of the repository.
  They are parameters of the model, so every theorem holds for any behaviour of them:
  \<^item> \<open>JSON_parse\<close>: \<open>JSON.parse\<close>, \<open>None\<close> when it throws;
  \<^item> \<open>JSON_stringify\<close>: \<open>JSON.stringify\<close>;
  \<^item> \<open>parseInt\<close>: \<open>parseInt\<close>, \<open>None\<close> when the result is \<open>NaN\<close>;
  \<^item> \<open>trim\<close>: \<open>String.prototype.trim\<close>;
  \<^item> \<open>toString\<close>: the conversion of a value to a string in a template literal;
  \<^item> \<open>dateTime\<close>: the time value of \<open>new Date(v)\<close> in milliseconds, \<open>None\<close> for an
    invalid date;
  \<^item> \<open>includesString\<close>: \<open>s.includes(v)\<close> on a string \<open>s\<close>;
  \<^item> \<open>stringToNumber\<close>: the number that a string converts to;
  \<^item> \<open>maxStringLength\<close>: the greatest length of a string; building a longer one
    throws a RangeError.
\<close>

text \<open>A number as arithmetic has it: \<open>NaN\<close>, a finite number, or an infinity.\<close>

datatype jsnumber = NotANumber | Finite rat | PlusInfinity | MinusInfinity

record platform =
  JSON_parse :: "string \<Rightarrow> jsval option"
  JSON_stringify :: "jsval \<Rightarrow> string"
  parseInt :: "string \<Rightarrow> int option"
  trim :: "string \<Rightarrow> string"
  toString :: "jsval \<Rightarrow> string"
  dateTime :: "jsval \<Rightarrow> int option"
  includesString :: "string \<Rightarrow> jsval \<Rightarrow> bool"
  stringToNumber :: "string \<Rightarrow> jsnumber"
  maxStringLength :: nat

text \<open>A string in a template literal is itself; any other value is converted.\<close>

definition template :: "platform \<Rightarrow> jsval \<Rightarrow> string" where
  "template P v = (case v of JStr s \<Rightarrow> s | _ \<Rightarrow> toString P v)"

text \<open>
  ToNumber, for a value that is convertible: an object or an array converts through its
  string.
\<close>

definition toNumber :: "platform \<Rightarrow> jsval \<Rightarrow> jsnumber" where
  "toNumber P v =
     (case v of
        JUndefined \<Rightarrow> NotANumber
      | JNull \<Rightarrow> Finite 0
      | JBool b \<Rightarrow> Finite (if b then 1 else 0)
      | JNum q \<Rightarrow> Finite q
      | JNaN \<Rightarrow> NotANumber
      | _ \<Rightarrow> stringToNumber P (template P v))"

section \<open>API helpers\<close>

text \<open>
  What \<open>fetch\<close> gives one request: it rejects with an error message, or it resolves
  with a response that has \<open>res.ok\<close>, \<open>res.status\<close> and the outcome of \<open>res.json()\<close>
  (\<open>Inl\<close> the message of the error it rejects with, \<open>Inr\<close> the decoded payload).
\<close>

datatype response =
    NetworkFailure string
  | HttpResponse bool int "string + jsval"

text \<open>apiGet (app.js 60-69): every failure is caught and becomes \<open>null\<close>.\<close>

definition apiGet :: "response \<Rightarrow> jsval" where
  "apiGet res =
     (case res of
        NetworkFailure msg \<Rightarrow> JNull
      | HttpResponse ok status body \<Rightarrow>
          if \<not> ok then JNull
          else (case body of Inl msg \<Rightarrow> JNull | Inr v \<Rightarrow> v))"

text \<open>
  apiPost (app.js 71-93): every failure is caught and becomes \<open>{ error: err.message }\<close>.
  On a status that is not ok the message is \<open>errData.error || errData.message\<close> when the
  body decodes and has one of them, \<open>API error: <status>\<close> otherwise (the inner
  \<open>try\<close> also catches the TypeError of a body that is \<open>null\<close>).
\<close>

definition error_object :: "string \<Rightarrow> jsval" where
  "error_object msg = JObj [(''error'', JStr msg)]"

definition apiPost :: "platform \<Rightarrow> response \<Rightarrow> jsval" where
  "apiPost P res =
     (case res of
        NetworkFailure msg \<Rightarrow> error_object msg
      | HttpResponse ok status body \<Rightarrow>
          if \<not> ok then
            (let errText0 = JStr (''API error: '' @ toString P (JNum (of_int status)));
                 errText =
                   (case body of
                      Inl msg \<Rightarrow> errText0
                    | Inr errData \<Rightarrow>
                        if nullish errData then errText0
                        else js_or (js_or (js_get errData ''error'') (js_get errData ''message''))
                               errText0)
             in error_object (template P errText))
          else (case body of Inl msg \<Rightarrow> error_object msg | Inr v \<Rightarrow> v))"

section \<open>Application state\<close>

text \<open>
  The notices of \<open>showToast(icon, message)\<close>, one constructor for each message of the
  functions modelled here; an argument is the interpolated part of the message.
  \<^item> \<open>YouJoined t\<close>: \<open>You joined "t"!\<close>
  \<^item> \<open>CouldNotJoin\<close>: \<open>Could not join match.\<close>
  \<^item> \<open>EnterTitle\<close>: \<open>Please enter a match title!\<close>
  \<^item> \<open>SelectStadium\<close>: \<open>Please select a stadium!\<close>
  \<^item> \<open>SelectDateTime\<close>: \<open>Please select date and time!\<close>
  \<^item> \<open>TooManyPlayers n\<close>: \<open>Too many players! Max is n.\<close>
  \<^item> \<open>MatchCreated t\<close>: \<open>Match "t" created!\<close>
  \<^item> \<open>CreateFailed\<close>: \<open>Failed to create match. Try again.\<close>
  \<^item> \<open>FillAllFields\<close>: \<open>Please fill in all fields!\<close>
  \<^item> \<open>WelcomeBack n\<close>: \<open>Welcome back, n!\<close>
  \<^item> \<open>AccountCreated\<close>: \<open>Account created successfully!\<close>
  \<^item> \<open>RegistrationFailed v\<close>: the message \<open>v\<close>, which is \<open>res.error || 'Registration failed'\<close>
\<close>

datatype notice =
    YouJoined string
  | CouldNotJoin
  | EnterTitle
  | SelectStadium
  | SelectDateTime
  | TooManyPlayers string
  | MatchCreated string
  | CreateFailed
  | FillAllFields
  | WelcomeBack string
  | AccountCreated
  | RegistrationFailed jsval

text \<open>
  What the program does to the outside, in order: a notice shown, a request handed to
  \<open>fetch\<close> (method, endpoint, the data of the body), a page change by \<open>navigateTo\<close>,
  and a part of the page drawn by a function whose markup is not modelled: the profile
  header by \<open>updateProfileHeader\<close>, the edit form by \<open>renderEditProfile\<close>, the
  closing of the modal by \<open>closeCreateMatchModal\<close>.
\<close>

datatype effect =
    Toast notice
  | Request string string jsval
  | Navigate string
  | Call string

text \<open>
  The join button of the match detail page: its label and the two style properties
  that openMatchDetail sets. The labels are \<open>Already Joined\<close>, \<open>Match is Full\<close> and
  \<open>Join This Match\<close>.
\<close>

datatype join_label = AlreadyJoined | MatchIsFull | JoinThisMatch

record join_button =
  textContent :: join_label
  opacity :: string
  pointerEvents :: string

text \<open>
  A match card as renderMatchCard draws it, without the markup: the match, the identifier
  in its click handlers (\<open>m._id || m.id\<close>), the stadium it resolved, and whether the card
  has a Join button (\<open>m.status === 'open'\<close>).
\<close>

record match_card =
  card_match :: jsval
  card_matchId :: jsval
  card_stadium :: jsval
  card_join :: bool

text \<open>The content of the \<open>matches-list\<close> container.\<close>

datatype matches_view = EmptyState | Cards "match_card list"

text \<open>The fields of the two forms that createMatch and submitLogin read.\<close>

record create_form =
  new_match_title :: string
  new_match_stadium :: string
  new_match_date :: string
  new_match_time :: string
  new_match_players :: string
  new_match_fee :: string
  new_match_friends :: "string list"

record login_form =
  login_username :: string
  login_phone :: string
  login_age :: string
  login_position :: string
  login_skill :: string

text \<open>
  The module-level variables of app.js (\<open>stadiums\<close>, \<open>matches\<close>, \<open>users\<close>,
  \<open>currentUser\<close>, \<open>loginAvatarDataUrl\<close>, \<open>selectedAvatarDataUrl\<close>, \<open>currentMatch\<close>,
  \<open>currentMatchTab\<close>, \<open>currentPage\<close>, \<open>pageHistory\<close>), the
  localStorage item \<open>justplay_currentUser\<close>, the parts of the page the modelled
  functions read and write, the trace of effects, and the clock (\<open>now\<close>, the time
  that \<open>new Date()\<close> without an argument reads). \<open>matches\<close> and \<open>users\<close> start
  as \<open>[]\<close> and are only ever assigned arrays; \<open>stadiums\<close> is assigned whatever truthy
  value the API returned. The elements of the page that the functions look up by
  identifier are taken to exist, also where the code guards the lookup.
\<close>

record app_state =
  stadiums :: jsval
  matches :: "jsval list"
  users :: "jsval list"
  currentUser :: jsval
  loginAvatarDataUrl :: jsval
  selectedAvatarDataUrl :: jsval
  currentMatch :: jsval
  currentMatchTab :: string
  currentPage :: string
  pageHistory :: "string list"
  savedUserItem :: "string option"
  createForm :: create_form
  loginForm :: login_form
  matchesList :: matches_view
  homeMatches :: "match_card list"
  joinMatchBtn :: join_button
  trace :: "effect list"
  now :: int

definition emit :: "effect \<Rightarrow> app_state \<Rightarrow> app_state" where
  "emit e s = s\<lparr>trace := trace s @ [e]\<rparr>"

definition showToast :: "notice \<Rightarrow> app_state \<Rightarrow> app_state" where
  "showToast n s = emit (Toast n) s"

section \<open>Local storage helpers\<close>

text \<open>getSavedUser (app.js 19-29).\<close>

definition getSavedUser :: "platform \<Rightarrow> app_state \<Rightarrow> jsval" where
  "getSavedUser P s =
     (case savedUserItem s of
        None \<Rightarrow> JNull
      | Some saved \<Rightarrow>
          if saved \<noteq> [] then
            (case JSON_parse P saved of
               Some v \<Rightarrow> v
             | None \<Rightarrow> JNull)
          else JNull)"


section \<open>Data loading\<close>

text \<open>loadStadiums (app.js 130-136).\<close>

definition loadStadiums :: "response \<Rightarrow> app_state \<Rightarrow> app_state" where
  "loadStadiums res s =
     (let s0 = emit (Request ''GET'' ''/stadiums'' JUndefined) s;
          data = apiGet res
      in if truthy data then s0\<lparr>stadiums := data\<rparr> else s0)"

text \<open>
  The own enumerable properties that \<open>{...m}\<close> copies: those of an object, the indexed
  elements of an array or of a string, none of any other value (also none of \<open>null\<close>).
\<close>

definition index_keys :: "platform \<Rightarrow> nat \<Rightarrow> string list" where
  "index_keys P n = map (\<lambda>i. toString P (JNum (of_nat i))) [0..<n]"

definition spread :: "platform \<Rightarrow> jsval \<Rightarrow> (string \<times> jsval) list" where
  "spread P v =
     (case v of
        JObj kvs \<Rightarrow> kvs
      | JArr xs \<Rightarrow> zip (index_keys P (length xs)) xs
      | JStr cs \<Rightarrow> zip (index_keys P (length cs)) (map (\<lambda>c. JStr [c]) cs)
      | _ \<Rightarrow> [])"

text \<open>
  The callback of \<open>data.map\<close> in loadMatches (app.js 142-149):
  \<open>{...m, id: m._id, _stadium: m.stadiumId, stadiumId: m.stadiumId?._id || m.stadiumId}\<close>.
\<close>

definition normalizeMatch :: "platform \<Rightarrow> jsval \<Rightarrow> error + jsval" where
  "normalizeMatch P m =
     (case read_prop m ''_id'' of
        Inl e \<Rightarrow> Inl e
      | Inr mid \<Rightarrow>
          (let sid = js_get m ''stadiumId'';
               sid_id = (if nullish sid then JUndefined else js_get sid ''_id'')
           in Inr (JObj (set_prop ''stadiumId'' (js_or sid_id sid)
                          (set_prop ''_stadium'' sid
                            (set_prop ''id'' mid (spread P m)))))))"

text \<open>
  loadMatches (app.js 138-152). \<open>data.map\<close> throws when the truthy \<open>data\<close> is not an
  array or when the callback does; \<open>matches\<close> is assigned only after the whole map.
\<close>

definition loadMatches :: "platform \<Rightarrow> response \<Rightarrow> app_state \<Rightarrow> unit result \<times> app_state" where
  "loadMatches P res s =
     (let s0 = emit (Request ''GET'' ''/matches'' JUndefined) s;
          data = apiGet res
      in if truthy data then
           (case data of
              JArr xs \<Rightarrow>
                (case map_js (normalizeMatch P) xs of
                   Inl e \<Rightarrow> (Thrown e, s0)
                 | Inr ms \<Rightarrow> (Returned (), s0\<lparr>matches := ms\<rparr>))
            | _ \<Rightarrow> (Thrown (NotAFunction ''map''), s0))
         else (Returned (), s0))"

text \<open>The callback \<open>u => u._id === savedUser._id\<close>.\<close>

definition sameUserId :: "jsval \<Rightarrow> jsval \<Rightarrow> error + bool" where
  "sameUserId savedUser u =
     (case read_prop u ''_id'' of
        Inl e \<Rightarrow> Inl e
      | Inr v \<Rightarrow> Inr (strict_eq v (js_get savedUser ''_id'')))"

text \<open>
  loadUsers (app.js 155-168). \<open>users\<close> is assigned before the search for the saved
  user, so it stays assigned when the callback of \<open>find\<close> throws.
\<close>

definition loadUsers :: "platform \<Rightarrow> response \<Rightarrow> app_state \<Rightarrow> unit result \<times> app_state" where
  "loadUsers P res s =
     (let s0 = emit (Request ''GET'' ''/users'' JUndefined) s;
          data = apiGet res
      in case data of
           JArr xs \<Rightarrow>
             (let s1 = s0\<lparr>users := xs\<rparr>;
                  savedUser = getSavedUser P s1
              in if truthy savedUser \<and> truthy (js_get savedUser ''_id'') then
                   (case find_js (sameUserId savedUser) xs of
                      Inl e \<Rightarrow> (Thrown e, s1)
                    | Inr u \<Rightarrow> (Returned (), s1\<lparr>currentUser := js_or u JNull\<rparr>))
                 else (Returned (), s1\<lparr>currentUser := JNull\<rparr>))
         | _ \<Rightarrow> (Returned (), s0))"

text \<open>The callback \<open>s => s._id === id || s.id === id\<close> of the two lookups.\<close>

definition hasId :: "jsval \<Rightarrow> jsval \<Rightarrow> error + bool" where
  "hasId ident r =
     (case read_prop r ''_id'' of
        Inl e \<Rightarrow> Inl e
      | Inr v \<Rightarrow> Inr (strict_eq v ident \<or> strict_eq (js_get r ''id'') ident))"

text \<open>
  getStadiumById (app.js 170-172); \<open>stadiums.find\<close> is not a function when \<open>stadiums\<close>
  is not an array.
\<close>

definition getStadiumById :: "app_state \<Rightarrow> jsval \<Rightarrow> error + jsval" where
  "getStadiumById s ident =
     (case stadiums s of
        JArr xs \<Rightarrow> find_js (hasId ident) xs
      | v \<Rightarrow> Inl (if nullish v then CannotRead ''find'' else NotAFunction ''find''))"

text \<open>getMatchById (app.js 174-176).\<close>

definition getMatchById :: "app_state \<Rightarrow> jsval \<Rightarrow> error + jsval" where
  "getMatchById s ident = find_js (hasId ident) (matches s)"

section \<open>Renderers\<close>

text \<open>
  A method call \<open>v.f(...)\<close> on a value that has no method \<open>f\<close>: reading \<open>f\<close> throws
  on \<open>null\<close> and \<open>undefined\<close>, calling it throws on anything else.
\<close>

definition noMethod :: "jsval \<Rightarrow> string \<Rightarrow> error" where
  "noMethod v f = (if nullish v then CannotRead f else NotAFunction f)"

text \<open>
  The callback \<open>name => { name.split(' ')... }\<close> that draws the initials of a player:
  only a string has \<open>split\<close>.
\<close>

definition playerInitials :: "jsval \<Rightarrow> error + unit" where
  "playerInitials name =
     (case name of
        JStr cs \<Rightarrow> Inr ()
      | v \<Rightarrow> Inl (noMethod v ''split''))"

text \<open>
  renderMatchCard (app.js 367-413), in the order of its statements: the stadium lookup,
  \<open>m.players.length\<close>, \<open>m.players.slice(0, 3).map(...)\<close> (a string has \<open>slice\<close> but
  its result has no \<open>map\<close>), the identifier.
\<close>

definition renderMatchCard :: "app_state \<Rightarrow> jsval \<Rightarrow> error + match_card" where
  "renderMatchCard s m =
     (case read_prop m ''stadiumId'' of
        Inl e \<Rightarrow> Inl e
      | Inr sid \<Rightarrow>
     (case getStadiumById s sid of
        Inl e \<Rightarrow> Inl e
      | Inr found \<Rightarrow>
     (let stadium = js_or found (js_get m ''_stadium'');
          players = js_get m ''players''
      in if nullish players then Inl (CannotRead ''length'')
         else
           (case players of
              JArr ps \<Rightarrow>
                (case map_js playerInitials (take 3 ps) of
                   Inl e \<Rightarrow> Inl e
                 | Inr avatars \<Rightarrow>
                     Inr \<lparr>card_match = m,
                          card_matchId = js_or (js_get m ''_id'') (js_get m ''id''),
                          card_stadium = stadium,
                          card_join = strict_eq (js_get m ''status'') (JStr ''open'')\<rparr>)
            | JStr cs \<Rightarrow> Inl (NotAFunction ''map'')
            | _ \<Rightarrow> Inl (NotAFunction ''slice'')))))"

text \<open>
  \<open>v.includes(x)\<close>: SameValueZero membership on an array, the platform's substring test
  on a string, no such method on any other value.
\<close>

definition includes_js :: "platform \<Rightarrow> jsval \<Rightarrow> jsval \<Rightarrow> error + bool" where
  "includes_js P v x =
     (case v of
        JArr xs \<Rightarrow> Inr (list_ex (\<lambda>y. same_value_zero y x) xs)
      | JStr cs \<Rightarrow> Inr (includesString P cs x)
      | _ \<Rightarrow> Inl (noMethod v ''includes''))"

text \<open>The callback \<open>m => m.status === 'open'\<close>.\<close>

definition isOpen :: "jsval \<Rightarrow> error + bool" where
  "isOpen m =
     (case read_prop m ''status'' of
        Inl e \<Rightarrow> Inl e
      | Inr st \<Rightarrow> Inr (strict_eq st (JStr ''open'')))"

text \<open>
  The callback \<open>m => m.players.includes(currentUser.name)\<close>: \<open>m.players\<close> and its
  \<open>includes\<close> are read first, then the argument is evaluated, then the call is made.
\<close>

definition isMine :: "platform \<Rightarrow> jsval \<Rightarrow> jsval \<Rightarrow> error + bool" where
  "isMine P user m =
     (case read_prop m ''players'' of
        Inl e \<Rightarrow> Inl e
      | Inr players \<Rightarrow>
          if nullish players then Inl (CannotRead ''includes'')
          else
            (case read_prop user ''name'' of
               Inl e \<Rightarrow> Inl e
             | Inr name \<Rightarrow> includes_js P players name))"

text \<open>
  The callback \<open>m => new Date(m.date) < new Date('2026-02-14')\<close>: a comparison of two
  time values, false when either date is invalid.
\<close>

definition isPast :: "platform \<Rightarrow> jsval \<Rightarrow> error + bool" where
  "isPast P m =
     (case read_prop m ''date'' of
        Inl e \<Rightarrow> Inl e
      | Inr d \<Rightarrow>
          Inr (case dateTime P d of
                 None \<Rightarrow> False
               | Some t \<Rightarrow>
                   (case dateTime P (JStr ''2026-02-14'') of
                      None \<Rightarrow> False
                    | Some t0 \<Rightarrow> t < t0)))"

text \<open>The first statements of renderMatchesList (app.js 417-425): the tab's filter.\<close>

definition filterMatches :: "platform \<Rightarrow> app_state \<Rightarrow> error + jsval list" where
  "filterMatches P s =
     (if currentMatchTab s = ''open'' then filter_js isOpen (matches s)
      else if currentMatchTab s = ''my'' then filter_js (isMine P (currentUser s)) (matches s)
      else if currentMatchTab s = ''past'' then filter_js (isPast P) (matches s)
      else Inr (matches s))"

text \<open>renderMatchesList (app.js 415-439).\<close>

definition renderMatchesList :: "platform \<Rightarrow> app_state \<Rightarrow> unit result \<times> app_state" where
  "renderMatchesList P s =
     (case filterMatches P s of
        Inl e \<Rightarrow> (Thrown e, s)
      | Inr filtered \<Rightarrow>
          if length filtered = 0 then (Returned (), s\<lparr>matchesList := EmptyState\<rparr>)
          else
            (case map_js (renderMatchCard s) filtered of
               Inl e \<Rightarrow> (Thrown e, s)
             | Inr cards \<Rightarrow> (Returned (), s\<lparr>matchesList := Cards cards\<rparr>)))"

text \<open>The callback \<open>m => m.status !== 'past'\<close>.\<close>

definition notPast :: "jsval \<Rightarrow> error + bool" where
  "notPast m =
     (case read_prop m ''status'' of
        Inl e \<Rightarrow> Inl e
      | Inr st \<Rightarrow> Inr (\<not> strict_eq st (JStr ''past'')))"

text \<open>renderHomeMatches (app.js 361-365).\<close>

definition renderHomeMatches :: "app_state \<Rightarrow> unit result \<times> app_state" where
  "renderHomeMatches s =
     (case filter_js notPast (matches s) of
        Inl e \<Rightarrow> (Thrown e, s)
      | Inr upcoming \<Rightarrow>
          (case map_js (renderMatchCard s) (take 3 upcoming) of
             Inl e \<Rightarrow> (Thrown e, s)
           | Inr cards \<Rightarrow> (Returned (), s\<lparr>homeMatches := cards\<rparr>)))"

section \<open>Match detail\<close>

text \<open>
  The join button state of openMatchDetail (app.js 713-729), for the players array
  \<open>ps\<close> of the current match.
\<close>

definition joinButtonState :: "jsval \<Rightarrow> jsval list \<Rightarrow> jsval \<Rightarrow> error + join_button" where
  "joinButtonState match ps user =
     (case read_prop user ''name'' of
        Inl e \<Rightarrow> Inl e
      | Inr name \<Rightarrow>
          (let isJoined = list_ex (\<lambda>y. same_value_zero y name) ps
           in if isJoined then
                Inr \<lparr>textContent = AlreadyJoined, opacity = ''0.6'', pointerEvents = ''none''\<rparr>
              else if strict_eq (js_get match ''status'') (JStr ''full'') then
                Inr \<lparr>textContent = MatchIsFull, opacity = ''0.6'', pointerEvents = ''none''\<rparr>
              else
                Inr \<lparr>textContent = JoinThisMatch, opacity = ''1'', pointerEvents = ''auto''\<rparr>))"

text \<open>
  navigateTo (app.js 191-229) with its default \<open>pushHistory = true\<close>. The page shown
  is recorded in the trace; the deferred initialisations of the \<open>map\<close> and
  \<open>edit-profile\<close> pages run later and are not part of the call.
\<close>

definition navigateTo :: "string \<Rightarrow> app_state \<Rightarrow> app_state" where
  "navigateTo page s =
     emit (Navigate page)
       ((if currentPage s \<noteq> page then s\<lparr>pageHistory := pageHistory s @ [currentPage s]\<rparr> else s)
          \<lparr>currentPage := page\<rparr>)"

text \<open>
  \<open>v.length\<close> of a value that is neither \<open>null\<close> nor \<open>undefined\<close>.
\<close>

definition lengthOf :: "jsval \<Rightarrow> jsval" where
  "lengthOf v =
     (case v of
        JArr xs \<Rightarrow> JNum (of_nat (length xs))
      | JStr cs \<Rightarrow> JNum (of_nat (length cs))
      | _ \<Rightarrow> js_get v ''length'')"

text \<open>
  \<open>name.split(' ').map(n => n[0]).join('')\<close>: the first character of every piece of
  the name between two spaces; an empty piece gives none.
\<close>

fun split_js :: "char \<Rightarrow> string \<Rightarrow> string list" where
  "split_js c [] = [[]]"
| "split_js c (x # xs) =
     (if x = c then [] # split_js c xs
      else (case split_js c xs of
              [] \<Rightarrow> [[x]]
            | w # ws \<Rightarrow> (x # w) # ws))"

definition initials :: "string \<Rightarrow> string" where
  "initials cs = concat (map (take 1) (split_js (CHR '' '') cs))"

text \<open>
  The lengths of the two template literals of the players grid without their
  interpolations: the item of a player (app.js 693-699) and the placeholder of an empty
  slot (app.js 706-711).
\<close>

definition playerItemLength :: nat where
  "playerItemLength = 142"

definition emptySlotLength :: nat where
  "emptySlotLength = 153"

text \<open>
  The callback of \<open>currentMatch.players.map\<close> (app.js 692-700), as the length of the
  markup it returns: only a string has \<open>split\<close>.
\<close>

definition playerItem :: "platform \<Rightarrow> jsval \<Rightarrow> error + nat" where
  "playerItem P name =
     (case name of
        JStr cs \<Rightarrow>
          (let n = playerItemLength + length (initials cs) + length cs
           in if n > maxStringLength P then Inl RangeError else Inr n)
      | v \<Rightarrow> Inl (noMethod v ''split''))"

text \<open>\<open>currentMatch.maxPlayers - currentMatch.players.length\<close>, for \<open>n\<close> players.\<close>

definition minusLength :: "jsnumber \<Rightarrow> nat \<Rightarrow> jsnumber" where
  "minusLength x n = (case x of Finite q \<Rightarrow> Finite (q - of_nat n) | y \<Rightarrow> y)"

text \<open>
  How often the body of \<open>for (let i = 0; i < emptySlots; i++)\<close> runs when nothing
  throws: \<open>None\<close> is without end.
\<close>

definition iterations :: "jsnumber \<Rightarrow> nat option" where
  "iterations x =
     (case x of
        NotANumber \<Rightarrow> Some 0
      | Finite q \<Rightarrow> Some (if q \<le> 0 then 0 else nat \<lceil>q\<rceil>)
      | PlusInfinity \<Rightarrow> None
      | MinusInfinity \<Rightarrow> Some 0)"

text \<open>
  The loop of the empty slots (app.js 705-712) on the length of \<open>playersHTML\<close>: every
  turn appends one placeholder, and the append throws when the string would pass the
  greatest length. A loop without end reaches that length.
\<close>

fun appendSlots :: "nat \<Rightarrow> nat \<Rightarrow> nat \<Rightarrow> error + nat" where
  "appendSlots limit 0 len = Inr len"
| "appendSlots limit (Suc n) len =
     (if len + emptySlotLength > limit then Inl RangeError
      else appendSlots limit n (len + emptySlotLength))"

definition emptySlotsLoop :: "platform \<Rightarrow> nat option \<Rightarrow> nat \<Rightarrow> error + nat" where
  "emptySlotsLoop P turns len =
     (case turns of
        None \<Rightarrow> Inl RangeError
      | Some n \<Rightarrow> appendSlots (maxStringLength P) n len)"

text \<open>
  The statements of openMatchDetail between its guard and the join button (app.js
  656-712), for the current match \<open>m\<close>, followed for what they can throw, in their
  order: the stadium lookup; the conversions of the title, of the date (in
  \<open>formatDate\<close>) and of the time; \<open>currentMatch.players.length\<close>; the conversions of
  that length, of \<open>maxPlayers\<close> and of the fee; the conversions of the stadium's
  fields when there is a stadium; \<open>currentMatch.rules.map\<close> with the conversion of
  every rule; \<open>currentMatch.players.map\<close> with the item of every player, and their
  \<open>join\<close>; the loop of the empty slots. The result is the players array. Of the
  strings built, only the players grid is followed for its length.
\<close>

definition detailBeforeJoinButton :: "platform \<Rightarrow> app_state \<Rightarrow> jsval \<Rightarrow> error + jsval list" where
  "detailBeforeJoinButton P s m =
     (case getStadiumById s (js_get m ''stadiumId'') of
        Inl e \<Rightarrow> Inl e
      | Inr st \<Rightarrow>
     (let stadium = js_or st (js_get m ''_stadium'');
          players = js_get m ''players'';
          rules = js_get m ''rules''
      in if \<not> list_all convertible [js_get m ''title'', js_get m ''date'', js_get m ''time'']
           then Inl CannotConvert
         else if nullish players then Inl (CannotRead ''length'')
         else if \<not> list_all convertible
                     [lengthOf players, js_get m ''maxPlayers'', js_get m ''fee'']
           then Inl CannotConvert
         else if truthy stadium \<and>
                 \<not> list_all convertible
                     [js_get stadium ''image'', js_get stadium ''name'',
                      js_get stadium ''address'', js_get stadium ''price'',
                      js_get stadium ''rating'']
           then Inl CannotConvert
         else
     (case rules of
        JArr rs \<Rightarrow>
          if \<not> list_all convertible rs then Inl CannotConvert
          else
            (case players of
               JArr ps \<Rightarrow>
                 (case map_js (playerItem P) ps of
                    Inl e \<Rightarrow> Inl e
                  | Inr items \<Rightarrow>
                      if sum_list items > maxStringLength P then Inl RangeError
                      else
                        (case emptySlotsLoop P
                                (iterations (minusLength (toNumber P (js_get m ''maxPlayers''))
                                               (length ps)))
                                (sum_list items) of
                           Inl e \<Rightarrow> Inl e
                         | Inr len \<Rightarrow> Inr ps))
             | _ \<Rightarrow> Inl (NotAFunction ''map''))
      | _ \<Rightarrow> Inl (noMethod rules ''map''))))"

text \<open>
  openMatchDetail (app.js 652-739). Of the page only the join button is modelled. The
  mini map is drawn later, by a timer.
\<close>

definition openMatchDetail :: "platform \<Rightarrow> jsval \<Rightarrow> app_state \<Rightarrow> unit result \<times> app_state" where
  "openMatchDetail P ident s =
     (case getMatchById s ident of
        Inl e \<Rightarrow> (Thrown e, s)
      | Inr found \<Rightarrow>
     (let s1 = s\<lparr>currentMatch := found\<rparr>
      in if \<not> truthy found then (Returned (), s1)
         else
     (case detailBeforeJoinButton P s1 found of
        Inl e \<Rightarrow> (Thrown e, s1)
      | Inr ps \<Rightarrow>
          (case joinButtonState found ps (currentUser s1) of
             Inl e \<Rightarrow> (Thrown e, s1)
           | Inr btn \<Rightarrow>
               (Returned (), navigateTo ''match-detail'' (s1\<lparr>joinMatchBtn := btn\<rparr>))))))"

section \<open>Joining and creating a match, logging in\<close>

text \<open>
  The responses of the requests an asynchronous function awaits are arguments of its
  model, in the order of the requests; the function runs to its end with them.
  Sequencing stops at the first statement that throws.
\<close>

definition andThen ::
  "unit result \<times> app_state \<Rightarrow> (app_state \<Rightarrow> unit result \<times> app_state) \<Rightarrow> unit result \<times> app_state" where
  "andThen r f =
     (case r of
        (Returned u, s) \<Rightarrow> f s
      | (Thrown e, s) \<Rightarrow> (Thrown e, s))"

text \<open>
  joinMatchById (app.js 755-765). The two arguments of apiPost, the endpoint with the
  identifier converted to a string and \<open>{ playerName: currentUser.name }\<close>, are
  evaluated before apiPost is called; the title is converted before the notice is shown.
\<close>

definition joinMatchById ::
  "platform \<Rightarrow> jsval \<Rightarrow> response \<Rightarrow> response \<Rightarrow> app_state \<Rightarrow> unit result \<times> app_state" where
  "joinMatchById P ident postRes getRes s =
     (if \<not> convertible ident then (Thrown CannotConvert, s)
      else
     (case read_prop (currentUser s) ''name'' of
        Inl e \<Rightarrow> (Thrown e, s)
      | Inr name \<Rightarrow>
          (let s1 = emit (Request ''POST'' (''/matches/'' @ template P ident @ ''/join'')
                        (JObj [(''playerName'', name)])) s;
               result = apiPost P postRes
           in if truthy result then
                if \<not> convertible (js_get result ''title'') then (Thrown CannotConvert, s1)
                else
                andThen (loadMatches P getRes
                           (showToast (YouJoined (template P (js_get result ''title''))) s1))
                  (\<lambda>s2. andThen (renderMatchesList P s2) renderHomeMatches)
              else (Returned (), showToast CouldNotJoin s1))))"

text \<open>A number that \<open>parseInt\<close> returned, as a value.\<close>

definition parsedNumber :: "int option \<Rightarrow> jsval" where
  "parsedNumber n = (case n of None \<Rightarrow> JNaN | Some i \<Rightarrow> JNum (of_int i))"

text \<open>\<open>maxPlayers / 2\<close>.\<close>

definition halfOf :: "int option \<Rightarrow> jsval" where
  "halfOf n = (case n of None \<Rightarrow> JNaN | Some i \<Rightarrow> JNum (of_int i / 2))"

text \<open>\<open>selectedFriends.length + 1 > maxPlayers\<close>: no number is greater than \<open>NaN\<close>.\<close>

definition tooMany :: "string list \<Rightarrow> int option \<Rightarrow> bool" where
  "tooMany selectedFriends maxPlayers =
     (case maxPlayers of
        None \<Rightarrow> False
      | Some n \<Rightarrow> int (length selectedFriends) + 1 > n)"

text \<open>createMatch (app.js 814-860).\<close>

definition createMatch ::
  "platform \<Rightarrow> response \<Rightarrow> response \<Rightarrow> app_state \<Rightarrow> unit result \<times> app_state" where
  "createMatch P postRes getRes s =
     (let title = trim P (new_match_title (createForm s));
          stadiumId = new_match_stadium (createForm s);
          date = new_match_date (createForm s);
          time = new_match_time (createForm s);
          maxPlayers = parseInt P (new_match_players (createForm s));
          fee = js_or (parsedNumber (parseInt P (new_match_fee (createForm s)))) (JNum 0);
          selectedFriends = new_match_friends (createForm s)
      in if title = [] then (Returned (), showToast EnterTitle s)
         else if stadiumId = [] then (Returned (), showToast SelectStadium s)
         else if date = [] \<or> time = [] then (Returned (), showToast SelectDateTime s)
         else if tooMany selectedFriends maxPlayers then
           (Returned (), showToast (TooManyPlayers (template P (parsedNumber maxPlayers))) s)
         else
           (case read_prop (currentUser s) ''name'' of
              Inl e \<Rightarrow> (Thrown e, s)
            | Inr name \<Rightarrow>
                (let matchData = JObj
                       [(''title'', JStr title),
                        (''stadiumId'', JStr stadiumId),
                        (''date'', JStr date),
                        (''time'', JStr time),
                        (''maxPlayers'', parsedNumber maxPlayers),
                        (''players'', JArr (name # map JStr selectedFriends)),
                        (''status'', JStr ''open''),
                        (''rules'', JArr
                           [JStr (template P (halfOf maxPlayers) @ '' vs ''
                                    @ template P (halfOf maxPlayers) @ '' format''),
                            JStr ''30-minute halves'',
                            JStr ''Fair play rules apply'',
                            JStr ''Have fun!'']),
                        (''fee'', fee)];
                     s1 = emit (Request ''POST'' ''/matches'' matchData) s;
                     result = apiPost P postRes
                 in if truthy result then
                      andThen (loadMatches P getRes
                                 (showToast (MatchCreated title)
                                    (emit (Call ''closeCreateMatchModal'') s1)))
                        (\<lambda>s2. andThen (renderMatchesList P s2)
                        (\<lambda>s3. andThen (renderHomeMatches s3)
                        (\<lambda>s4. (Returned (),
                               s4\<lparr>createForm :=
                                    (createForm s4)\<lparr>new_match_title := [],
                                                     new_match_fee := []\<rparr>\<rparr>))))
                    else (Returned (), showToast CreateFailed s1))))"






section \<open>Modal accessibility helpers\<close>

text \<open>
  An element that can be given the focus: \<open>hasFocusMethod\<close> is
  \<open>typeof el.focus === 'function'\<close>, \<open>takesFocus\<close> is whether the browser moves the
  focus to it when \<open>el.focus()\<close> is called.
\<close>

record element =
  elementId :: nat
  hasFocusMethod :: bool
  takesFocus :: bool

text \<open>
  A modal overlay: its \<open>visible\<close> class, its \<open>aria-hidden\<close> attribute, the three
  properties that \<open>_addModalHandlers\<close> stores on it (\<open>None\<close> when the property is
  \<open>undefined\<close> or \<open>null\<close>) and its \<open>mousedown\<close> listeners. A handler is identified by
  a number. The document has its \<open>keydown\<close> listeners and the focused element.
\<close>

record modal =
  visibleClass :: bool
  ariaHidden :: "string option"
  overlayClick :: "nat option"
  keyHandler :: "nat option"
  previouslyFocused :: "element option"
  mousedownListeners :: "nat list"

record document =
  keydownListeners :: "nat list"
  activeElement :: "element option"

text \<open>
  \<open>_removeModalHandlers\<close> (app.js 1042-1053). The argument is what
  \<open>document.getElementById\<close> returned: \<open>None\<close> is \<open>null\<close>, on which
  \<open>modal.querySelector\<close> throws. \<open>removeEventListener\<close> removes the listener when it
  is registered and does nothing otherwise.
\<close>

definition removeModalHandlers :: "modal option \<Rightarrow> document \<Rightarrow> error + modal \<times> document" where
  "removeModalHandlers modal d =
     (case modal of
        None \<Rightarrow> Inl (CannotRead ''querySelector'')
      | Some m \<Rightarrow>
          (let m1 = (case overlayClick m of
                       Some h \<Rightarrow> m\<lparr>mousedownListeners := remove1 h (mousedownListeners m)\<rparr>
                     | None \<Rightarrow> m);
               d1 = (case keyHandler m of
                       Some h \<Rightarrow> d\<lparr>keydownListeners := remove1 h (keydownListeners d)\<rparr>
                     | None \<Rightarrow> d);
               m2 = m1\<lparr>ariaHidden := Some ''true''\<rparr>;
               d2 = (case previouslyFocused m of
                       Some el \<Rightarrow>
                         if hasFocusMethod el \<and> takesFocus el then d1\<lparr>activeElement := Some el\<rparr>
                         else d1
                     | None \<Rightarrow> d1)
           in Inr (m2\<lparr>overlayClick := None, keyHandler := None, previouslyFocused := None\<rparr>, d2)))"

text \<open>closeCreateMatchModal (app.js 808-812).\<close>

definition closeCreateMatchModal :: "modal option \<Rightarrow> document \<Rightarrow> error + modal \<times> document" where
  "closeCreateMatchModal modal d =
     (case modal of
        None \<Rightarrow> Inl (CannotRead ''classList'')
      | Some m \<Rightarrow> removeModalHandlers (Some (m\<lparr>visibleClass := False\<rparr>)) d)"

text \<open>Player names are strings.\<close>

fun is_string :: "jsval \<Rightarrow> bool" where
  "is_string (JStr cs) = True"
| "is_string v = False"

text \<open>
  The record that normalizeMatch builds from a match record \<open>m\<close> that is an object
  (then \<open>m._id\<close> does not throw, and \<open>m.stadiumId?._id\<close> is \<open>undefined\<close> exactly when
  \<open>js_get\<close> says so).
\<close>

definition normalized :: "platform \<Rightarrow> jsval \<Rightarrow> jsval" where
  "normalized P m =
     JObj (set_prop ''stadiumId''
             (js_or (js_get (js_get m ''stadiumId'') ''_id'') (js_get m ''stadiumId''))
             (set_prop ''_stadium'' (js_get m ''stadiumId'')
               (set_prop ''id'' (js_get m ''_id'') (spread P m))))"

section \<open>Example data\<close>

text \<open>
  A small platform and a small state on which the theorems below are run. The platform
  decodes one stored snapshot, parses the numerals the examples enter, knows the
  time values of three dates (midnight UTC, in milliseconds), and has the greatest
  string length of V8 on a 64-bit machine.
\<close>

definition examplePlatform :: platform where
  "examplePlatform =
     \<lparr>JSON_parse = (\<lambda>t. if t = ''saved:u2''
                          then Some (JObj [(''_id'', JStr ''u2''), (''name'', JStr ''Sara (old)'')])
                          else None),
      JSON_stringify = (\<lambda>v. case js_get v ''_id'' of JStr i \<Rightarrow> ''saved:'' @ i | _ \<Rightarrow> ''saved:''),
      parseInt = (\<lambda>t. if t = ''4'' then Some 4 else if t = ''10'' then Some 10
                       else if t = ''25'' then Some 25 else None),
      trim = (\<lambda>t. t),
      toString = (\<lambda>v. case v of JUndefined \<Rightarrow> ''undefined'' | JNull \<Rightarrow> ''null''
                       | JNum q \<Rightarrow> (if q = 4 then ''4'' else if q = 2 then ''2'' else ''number'')
                       | JStr t \<Rightarrow> t | _ \<Rightarrow> ''value''),
      dateTime = (\<lambda>v. if v = JStr ''2026-01-01'' then Some 1767225600000
                       else if v = JStr ''2026-02-14'' then Some 1771027200000
                       else if v = JStr ''2026-03-01'' then Some 1772323200000
                       else None),
      includesString = (\<lambda>t v. False),
      stringToNumber = (\<lambda>t. NotANumber),
      maxStringLength = 536870888\<rparr>"

definition userAli :: jsval where
  "userAli = JObj [(''_id'', JStr ''u1''), (''name'', JStr ''Ali''), (''phone'', JStr ''0555'')]"

definition userSara :: jsval where
  "userSara = JObj [(''_id'', JStr ''u2''), (''name'', JStr ''Sara''), (''phone'', JStr ''0666'')]"

definition exampleStadium :: jsval where
  "exampleStadium = JObj [(''_id'', JStr ''s1''), (''name'', JStr ''Arena'')]"

definition legacyStadium :: jsval where
  "legacyStadium = JObj [(''id'', JStr ''s2''), (''name'', JStr ''Old Field'')]"

definition matchOpen :: jsval where
  "matchOpen = JObj
     [(''_id'', JStr ''m1''), (''id'', JStr ''m1''), (''title'', JStr ''Friday''),
      (''stadiumId'', JStr ''s1''), (''date'', JStr ''2026-01-01''),
      (''players'', JArr [JStr ''Sara'']), (''maxPlayers'', JNum 2),
      (''status'', JStr ''open''), (''rules'', JArr [])]"

definition matchFull :: jsval where
  "matchFull = JObj
     [(''_id'', JStr ''m2''), (''id'', JStr ''m2''), (''title'', JStr ''Sunday''),
      (''stadiumId'', JStr ''s1''), (''date'', JStr ''2026-03-01''),
      (''players'', JArr [JStr ''Omar'', JStr ''Ali'']), (''maxPlayers'', JNum 2),
      (''status'', JStr ''full''), (''rules'', JArr [])]"

definition exampleForm :: create_form where
  "exampleForm =
     \<lparr>new_match_title = ''Derby'', new_match_stadium = ''s1'',
      new_match_date = ''2026-03-01'', new_match_time = ''18:00'',
      new_match_players = ''4'', new_match_fee = [],
      new_match_friends = [''Omar B.'', ''Khalid M.'', ''Ali R.'', ''Hassan S.'']\<rparr>"

definition exampleLogin :: login_form where
  "exampleLogin =
     \<lparr>login_username = ''Ali'', login_phone = ''0555'', login_age = ''25'',
      login_position = ''GK'', login_skill = ''Beginner''\<rparr>"

definition exampleState :: app_state where
  "exampleState =
     \<lparr>stadiums = JArr [exampleStadium, legacyStadium],
      matches = [matchOpen, matchFull],
      users = [userAli, userSara],
      currentUser = JNull,
      loginAvatarDataUrl = JNull,
      selectedAvatarDataUrl = JNull,
      currentMatch = JNull,
      currentMatchTab = ''all'',
      currentPage = ''home'',
      pageHistory = [],
      savedUserItem = None,
      createForm = exampleForm,
      loginForm = exampleLogin,
      matchesList = EmptyState,
      homeMatches = [],
      joinMatchBtn = \<lparr>textContent = JoinThisMatch, opacity = ''1'', pointerEvents = ''auto''\<rparr>,
      trace = [],
      now = 0\<rparr>"


definition rawMatch :: jsval where
  "rawMatch = JObj
     [(''_id'', JStr ''m9''), (''title'', JStr ''Cup''),
      (''stadiumId'', JObj [(''_id'', JStr ''s1''), (''name'', JStr ''Arena'')]),
      (''players'', JArr [JStr ''Omar'']), (''status'', JStr ''open''), (''rules'', JArr [])]"

definition matchesResponse :: response where
  "matchesResponse = HttpResponse True 200 (Inr (JArr [rawMatch]))"

definition failedResponse :: response where
  "failedResponse = HttpResponse False 400 (Inr (JObj [(''error'', JStr ''Match is full'')]))"

text \<open>
  An open modal: two handlers registered, the element focused before it opened
  remembered, the focus inside the modal.
\<close>

definition openModal :: modal where
  "openModal =
     \<lparr>visibleClass = True, ariaHidden = Some ''false'', overlayClick = Some 1,
      keyHandler = Some 2,
      previouslyFocused = Some \<lparr>elementId = 7, hasFocusMethod = True, takesFocus = True\<rparr>,
      mousedownListeners = [1]\<rparr>"

definition openDocument :: document where
  "openDocument =
     \<lparr>keydownListeners = [5, 2],
      activeElement = Some \<lparr>elementId = 9, hasFocusMethod = True, takesFocus = True\<rparr>\<rparr>"

text \<open>An open match for ten million players, with one player in it.\<close>

definition hugeMatch :: jsval where
  "hugeMatch = JObj
     [(''_id'', JStr ''m3''), (''id'', JStr ''m3''), (''title'', JStr ''Everyone''),
      (''stadiumId'', JStr ''s1''), (''date'', JStr ''2026-03-01''),
      (''players'', JArr [JStr ''Sara'']), (''maxPlayers'', JNum 10000000),
      (''status'', JStr ''open''), (''rules'', JArr [])]"



section \<open>Basic facts\<close>

lemma is_object_not_nullish: "is_object v \<Longrightarrow> \<not> nullish v"
  by (cases v) simp_all

lemma read_prop_object: "is_object v \<Longrightarrow> read_prop v k = Inr (js_get v k)"
  by (simp add: read_prop_def is_object_not_nullish)


lemma truthy_get_truthy: "truthy (js_get v k) \<Longrightarrow> truthy v"
  by (cases v) simp_all

lemma js_get_nullish: "nullish v \<Longrightarrow> js_get v k = JUndefined"
  by (cases v) simp_all

text \<open>A callback that never throws turns the three array methods into their HOL twins.\<close>

lemma find_js_total:
  "(\<And>x. x \<in> set xs \<Longrightarrow> p x = Inr (q x)) \<Longrightarrow>
   find_js p xs = Inr (case find q xs of None \<Rightarrow> JUndefined | Some x \<Rightarrow> x)"
  by (induction xs) simp_all


lemma map_js_total:
  "(\<And>x. x \<in> set xs \<Longrightarrow> f x = Inr (g x)) \<Longrightarrow> map_js f xs = Inr (map g xs)"
  by (induction xs) simp_all

lemma find_first:
  assumes "i < length xs" "q (xs ! i)" "\<forall>j<i. \<not> q (xs ! j)"
  shows "find q xs = Some (xs ! i)"
  using assms by (auto simp: find_Some_iff)

lemma find_none: "(\<forall>x\<in>set xs. \<not> q x) \<Longrightarrow> find q xs = None"
  by (simp add: find_None_iff)


text \<open>Facts about the example data, so that it need not be unfolded.\<close>

lemma exampleState_fields:
  "stadiums exampleState = JArr [exampleStadium, legacyStadium]"
  "matches exampleState = [matchOpen, matchFull]"
  "users exampleState = [userAli, userSara]"
  "currentUser exampleState = JNull"
  "currentMatchTab exampleState = ''all''"
  "savedUserItem exampleState = None"
  "createForm exampleState = exampleForm"
  "loginForm exampleState = exampleLogin"
  "trace exampleState = []"
  by (simp_all add: exampleState_def)

lemma examplePlatform_template:
  "template examplePlatform JUndefined = ''undefined''"
  "template examplePlatform (JStr x) = x"
  by (simp_all add: template_def examplePlatform_def)

section \<open>Lookup by identifier\<close>

lemma hasId_object:
  "is_object r \<Longrightarrow>
   hasId ident r = Inr (strict_eq (js_get r ''_id'') ident \<or> strict_eq (js_get r ''id'') ident)"
  by (simp add: hasId_def read_prop_object)

lemma lookup_objects:
  assumes "list_all is_object xs"
  shows "find_js (hasId ident) xs =
         Inr (case find (\<lambda>r. strict_eq (js_get r ''_id'') ident \<or> strict_eq (js_get r ''id'') ident) xs of
                None \<Rightarrow> JUndefined | Some x \<Rightarrow> x)"
  using assms by (intro find_js_total) (simp add: hasId_object list_all_iff)

text \<open>
  Claim C2. In a collection of records, getStadiumById and getMatchById return the first
  record whose \<open>_id\<close> or whose \<open>id\<close> is strictly equal to the identifier asked for,
  whichever of the two fields carries it, and \<open>undefined\<close> when no record carries it in
  either field.
\<close>

theorem getById_first_match:
  assumes "list_all is_object xs"
  shows "(stadiums s = JArr xs \<longrightarrow>
            (\<forall>i<length xs.
               (strict_eq (js_get (xs ! i) ''_id'') ident \<or> strict_eq (js_get (xs ! i) ''id'') ident) \<and>
               (\<forall>j<i. \<not> (strict_eq (js_get (xs ! j) ''_id'') ident \<or>
                          strict_eq (js_get (xs ! j) ''id'') ident))
               \<longrightarrow> getStadiumById s ident = Inr (xs ! i)) \<and>
            ((\<forall>x\<in>set xs. \<not> (strict_eq (js_get x ''_id'') ident \<or> strict_eq (js_get x ''id'') ident))
               \<longrightarrow> getStadiumById s ident = Inr JUndefined)) \<and>
         (matches s = xs \<longrightarrow>
            (\<forall>i<length xs.
               (strict_eq (js_get (xs ! i) ''_id'') ident \<or> strict_eq (js_get (xs ! i) ''id'') ident) \<and>
               (\<forall>j<i. \<not> (strict_eq (js_get (xs ! j) ''_id'') ident \<or>
                          strict_eq (js_get (xs ! j) ''id'') ident))
               \<longrightarrow> getMatchById s ident = Inr (xs ! i)) \<and>
            ((\<forall>x\<in>set xs. \<not> (strict_eq (js_get x ''_id'') ident \<or> strict_eq (js_get x ''id'') ident))
               \<longrightarrow> getMatchById s ident = Inr JUndefined))"
proof -
  let ?q = "\<lambda>r. strict_eq (js_get r ''_id'') ident \<or> strict_eq (js_get r ''id'') ident"
  have first: "find_js (hasId ident) xs = Inr (xs ! i)"
    if "i < length xs" "?q (xs ! i)" "\<forall>j<i. \<not> ?q (xs ! j)" for i
    using that find_first [of i xs ?q] by (simp add: lookup_objects [OF assms])
  have none: "find_js (hasId ident) xs = Inr JUndefined" if "\<forall>x\<in>set xs. \<not> ?q x"
    using that find_none [of xs ?q] by (simp add: lookup_objects [OF assms])
  show ?thesis
    using first none by (simp add: getStadiumById_def getMatchById_def)
qed

text \<open>
  On the example state: the second stadium carries \<open>s2\<close> in its \<open>id\<close> field only and
  is found by it, the first carries \<open>s1\<close> in \<open>_id\<close>, and no stadium carries \<open>s3\<close>.
\<close>

theorem getById_first_match_witness:
  "list_all is_object [exampleStadium, legacyStadium] \<and>
   stadiums exampleState = JArr [exampleStadium, legacyStadium] \<and>
   getStadiumById exampleState (JStr ''s2'') = Inr legacyStadium \<and>
   getStadiumById exampleState (JStr ''s1'') = Inr exampleStadium \<and>
   getStadiumById exampleState (JStr ''s3'') = Inr JUndefined"
proof -
  let ?xs = "[exampleStadium, legacyStadium]"
  have objs: "list_all is_object ?xs"
    by (simp add: exampleStadium_def legacyStadium_def)
  have st: "stadiums exampleState = JArr ?xs"
    by (simp add: exampleState_def)
  have s2: "getStadiumById exampleState (JStr ''s2'') = Inr (?xs ! 1)"
    using getById_first_match [OF objs, of exampleState "JStr ''s2''"] st
    by (simp add: exampleStadium_def legacyStadium_def less_Suc_eq)
  have s1: "getStadiumById exampleState (JStr ''s1'') = Inr (?xs ! 0)"
    using getById_first_match [OF objs, of exampleState "JStr ''s1''"] st
    by (simp add: exampleStadium_def legacyStadium_def less_Suc_eq)
  have s3: "getStadiumById exampleState (JStr ''s3'') = Inr JUndefined"
    using getById_first_match [OF objs, of exampleState "JStr ''s3''"] st
    by (simp add: exampleStadium_def legacyStadium_def)
  show ?thesis
    using objs st s1 s2 s3 by simp
qed

section \<open>Loading the collections\<close>

lemma getSavedUser_unchanged [simp]:
  "getSavedUser P (s\<lparr>users := xs\<rparr>) = getSavedUser P s"
  "getSavedUser P (emit e s) = getSavedUser P s"
  by (simp_all add: getSavedUser_def emit_def)

lemma sameUserId_object:
  "is_object u \<Longrightarrow> sameUserId sv u = Inr (strict_eq (js_get u ''_id'') (js_get sv ''_id''))"
  by (simp add: sameUserId_def read_prop_object)

lemma loadUsers_array:
  assumes "apiGet res = JArr xs" "list_all is_object xs"
  shows "loadUsers P res s =
           (Returned (),
            (emit (Request ''GET'' ''/users'' JUndefined) s)
              \<lparr>users := xs,
               currentUser :=
                 (if truthy (js_get (getSavedUser P s) ''_id'') then
                    js_or (case find (\<lambda>u. strict_eq (js_get u ''_id'') (js_get (getSavedUser P s) ''_id'')) xs of
                             None \<Rightarrow> JUndefined | Some u \<Rightarrow> u) JNull
                  else JNull)\<rparr>)"
proof -
  have f: "find_js (sameUserId sv) xs =
           Inr (case find (\<lambda>u. strict_eq (js_get u ''_id'') (js_get sv ''_id'')) xs of
                  None \<Rightarrow> JUndefined | Some u \<Rightarrow> u)" for sv
    using assms(2) by (intro find_js_total) (simp add: sameUserId_object list_all_iff)
  show ?thesis
    using assms(1) truthy_get_truthy [of "getSavedUser P s" "''_id''"]
    by (auto simp: loadUsers_def Let_def f)
qed



lemma map_of_set_prop: "map_of (set_prop k v kvs) = (map_of kvs)(k \<mapsto> v)"
  by (induction kvs) auto

lemma normalizeMatch_object:
  "is_object m \<Longrightarrow> normalizeMatch P m = Inr (normalized P m)"
  by (simp add: normalizeMatch_def normalized_def read_prop_object Let_def js_get_nullish)

lemma normalized_fields:
  assumes "is_object m"
  shows "js_get (normalized P m) ''id'' = js_get m ''_id''"
    and "js_get (normalized P m) ''_stadium'' = js_get m ''stadiumId''"
    and "js_get (normalized P m) ''stadiumId'' =
           (if truthy (js_get (js_get m ''stadiumId'') ''_id'')
            then js_get (js_get m ''stadiumId'') ''_id'' else js_get m ''stadiumId'')"
    and "k \<notin> {''id'', ''_stadium'', ''stadiumId''} \<Longrightarrow> js_get (normalized P m) k = js_get m k"
    and "is_object (normalized P m)"
  using assms
  by (cases m; simp add: normalized_def spread_def map_of_set_prop js_or_def)+

lemma loadMatches_array:
  assumes "apiGet res = JArr xs" "list_all is_object xs"
  shows "loadMatches P res s =
           (Returned (), (emit (Request ''GET'' ''/matches'' JUndefined) s)\<lparr>matches := map (normalized P) xs\<rparr>)"
proof -
  have "map_js (normalizeMatch P) xs = Inr (map (normalized P) xs)"
    using assms(2) by (intro map_js_total) (simp add: normalizeMatch_object list_all_iff)
  then show ?thesis
    using assms(1) by (simp add: loadMatches_def Let_def)
qed

lemma loadUsers_users:
  "apiGet res = JArr xs \<Longrightarrow> users (snd (loadUsers P res s)) = xs"
  by (simp add: loadUsers_def Let_def split: sum.splits)

text \<open>
  Claim C3. When the adapter returns its failure value \<open>null\<close>, loadStadiums,
  loadMatches and loadUsers return normally and leave their collection as it was
  (loadUsers leaves the current user too). When the adapter returns an array, the
  stadiums and the users collection become that array; when its elements are records,
  the matches collection becomes the array of the normalized records, one for each and
  in the same order: \<open>id\<close> is the record's \<open>_id\<close>, \<open>_stadium\<close> is its \<open>stadiumId\<close>,
  \<open>stadiumId\<close> is the \<open>_id\<close> of an embedded stadium when it has a truthy one and the
  bare reference otherwise, and every other property is the record's.
\<close>

theorem load_keeps_or_replaces:
  "(apiGet res = JNull \<longrightarrow>
      stadiums (loadStadiums res s) = stadiums s \<and>
      fst (loadMatches P res s) = Returned () \<and>
      matches (snd (loadMatches P res s)) = matches s \<and>
      fst (loadUsers P res s) = Returned () \<and>
      users (snd (loadUsers P res s)) = users s \<and>
      currentUser (snd (loadUsers P res s)) = currentUser s) \<and>
   (\<forall>xs. apiGet res = JArr xs \<longrightarrow>
      stadiums (loadStadiums res s) = JArr xs \<and>
      users (snd (loadUsers P res s)) = xs \<and>
      (list_all is_object xs \<longrightarrow>
         fst (loadUsers P res s) = Returned () \<and>
         fst (loadMatches P res s) = Returned () \<and>
         length (matches (snd (loadMatches P res s))) = length xs \<and>
         (\<forall>i<length xs.
            is_object (matches (snd (loadMatches P res s)) ! i) \<and>
            js_get (matches (snd (loadMatches P res s)) ! i) ''id'' = js_get (xs ! i) ''_id'' \<and>
            js_get (matches (snd (loadMatches P res s)) ! i) ''_stadium'' =
              js_get (xs ! i) ''stadiumId'' \<and>
            js_get (matches (snd (loadMatches P res s)) ! i) ''stadiumId'' =
              (if truthy (js_get (js_get (xs ! i) ''stadiumId'') ''_id'')
               then js_get (js_get (xs ! i) ''stadiumId'') ''_id''
               else js_get (xs ! i) ''stadiumId'') \<and>
            (\<forall>k. k \<notin> {''id'', ''_stadium'', ''stadiumId''} \<longrightarrow>
               js_get (matches (snd (loadMatches P res s)) ! i) k = js_get (xs ! i) k))))"
proof (intro conjI impI allI)
  assume null: "apiGet res = JNull"
  show "stadiums (loadStadiums res s) = stadiums s"
    using null by (simp add: loadStadiums_def emit_def)
  show "fst (loadMatches P res s) = Returned ()"
    and "matches (snd (loadMatches P res s)) = matches s"
    using null by (simp_all add: loadMatches_def emit_def)
  show "fst (loadUsers P res s) = Returned ()"
    and "users (snd (loadUsers P res s)) = users s"
    and "currentUser (snd (loadUsers P res s)) = currentUser s"
    using null by (simp_all add: loadUsers_def emit_def)
next
  fix xs
  assume arr: "apiGet res = JArr xs"
  show "stadiums (loadStadiums res s) = JArr xs"
    using arr by (simp add: loadStadiums_def)
  show "users (snd (loadUsers P res s)) = xs"
    using arr by (rule loadUsers_users)
  assume objs: "list_all is_object xs"
  show "fst (loadUsers P res s) = Returned ()"
    by (simp add: loadUsers_array [OF arr objs])
  show "fst (loadMatches P res s) = Returned ()"
    by (simp add: loadMatches_array [OF arr objs])
  show "length (matches (snd (loadMatches P res s))) = length xs"
    by (simp add: loadMatches_array [OF arr objs])
  fix i
  assume i: "i < length xs"
  then have obj: "is_object (xs ! i)"
    using objs by (simp add: list_all_length)
  have at: "matches (snd (loadMatches P res s)) ! i = normalized P (xs ! i)"
    using i by (simp add: loadMatches_array [OF arr objs])
  show "is_object (matches (snd (loadMatches P res s)) ! i)"
    unfolding at by (rule normalized_fields(5) [OF obj])
  show "js_get (matches (snd (loadMatches P res s)) ! i) ''id'' = js_get (xs ! i) ''_id''"
    unfolding at by (rule normalized_fields(1) [OF obj])
  show "js_get (matches (snd (loadMatches P res s)) ! i) ''_stadium'' = js_get (xs ! i) ''stadiumId''"
    unfolding at by (rule normalized_fields(2) [OF obj])
  show "js_get (matches (snd (loadMatches P res s)) ! i) ''stadiumId'' =
          (if truthy (js_get (js_get (xs ! i) ''stadiumId'') ''_id'')
           then js_get (js_get (xs ! i) ''stadiumId'') ''_id''
           else js_get (xs ! i) ''stadiumId'')"
    unfolding at by (rule normalized_fields(3) [OF obj])
  fix k :: string
  assume "k \<notin> {''id'', ''_stadium'', ''stadiumId''}"
  then show "js_get (matches (snd (loadMatches P res s)) ! i) k = js_get (xs ! i) k"
    unfolding at by (rule normalized_fields(4) [OF obj])
qed

text \<open>
  On the example: a failed request leaves the two matches of the example state in
  place; a successful one replaces them by the one normalized match, whose embedded
  stadium has become the flat identifier \<open>s1\<close>.
\<close>

theorem load_keeps_or_replaces_witness:
  "apiGet failedResponse = JNull \<and>
   matches (snd (loadMatches examplePlatform failedResponse exampleState)) = [matchOpen, matchFull] \<and>
   stadiums (loadStadiums failedResponse exampleState) = JArr [exampleStadium, legacyStadium] \<and>
   users (snd (loadUsers examplePlatform failedResponse exampleState)) = [userAli, userSara] \<and>
   apiGet matchesResponse = JArr [rawMatch] \<and> list_all is_object [rawMatch] \<and>
   length (matches (snd (loadMatches examplePlatform matchesResponse exampleState))) = 1 \<and>
   js_get (matches (snd (loadMatches examplePlatform matchesResponse exampleState)) ! 0) ''stadiumId''
     = JStr ''s1'' \<and>
   js_get (matches (snd (loadMatches examplePlatform matchesResponse exampleState)) ! 0) ''id''
     = JStr ''m9'' \<and>
   js_get (matches (snd (loadMatches examplePlatform matchesResponse exampleState)) ! 0) ''title''
     = JStr ''Cup''"
proof -
  have failed: "apiGet failedResponse = JNull"
    by (simp add: failedResponse_def apiGet_def)
  have loaded: "apiGet matchesResponse = JArr [rawMatch]"
    by (simp add: matchesResponse_def apiGet_def)
  have objs: "list_all is_object [rawMatch]"
    by (simp add: rawMatch_def)
  have keep:
    "matches (snd (loadMatches examplePlatform failedResponse exampleState)) = matches exampleState"
    "stadiums (loadStadiums failedResponse exampleState) = stadiums exampleState"
    "users (snd (loadUsers examplePlatform failedResponse exampleState)) = users exampleState"
    using load_keeps_or_replaces [of failedResponse exampleState examplePlatform] failed
    by simp_all
  have repl:
    "length (matches (snd (loadMatches examplePlatform matchesResponse exampleState))) = 1"
    "js_get (matches (snd (loadMatches examplePlatform matchesResponse exampleState)) ! 0) ''stadiumId''
       = JStr ''s1''"
    "js_get (matches (snd (loadMatches examplePlatform matchesResponse exampleState)) ! 0) ''id''
       = JStr ''m9''"
    "js_get (matches (snd (loadMatches examplePlatform matchesResponse exampleState)) ! 0) ''title''
       = JStr ''Cup''"
    using load_keeps_or_replaces [of matchesResponse exampleState examplePlatform] loaded objs
    by (simp_all add: rawMatch_def)
  show ?thesis
    using failed loaded objs keep repl by (simp add: exampleState_def)
qed

text \<open>
  The results of the adapter that are neither \<open>null\<close> nor an array are outside the
  claim: a falsy one is treated like a failure by all three, and an object replaces the
  stadiums, makes \<open>data.map\<close> in loadMatches throw, and is ignored by loadUsers.
\<close>

lemma load_other_results:
  "\<not> truthy (apiGet res) \<Longrightarrow>
     stadiums (loadStadiums res s) = stadiums s \<and>
     matches (snd (loadMatches P res s)) = matches s \<and>
     users (snd (loadUsers P res s)) = users s"
  "apiGet res = JObj kvs \<Longrightarrow>
     stadiums (loadStadiums res s) = JObj kvs \<and>
     loadMatches P res s =
       (Thrown (NotAFunction ''map''), emit (Request ''GET'' ''/matches'' JUndefined) s) \<and>
     users (snd (loadUsers P res s)) = users s"
  by (cases "apiGet res";
      simp add: loadStadiums_def loadMatches_def loadUsers_def Let_def emit_def)+
section \<open>The match detail page\<close>

lemma strict_eq_JStr [simp]: "strict_eq v (JStr x) = (v = JStr x)"
  by (cases v) auto

lemma same_value_zero_string: "is_string y \<Longrightarrow> same_value_zero y x = (x = y)"
  by (cases y) (auto simp: same_value_zero_def)

lemma includes_strings:
  "list_all is_string ps \<Longrightarrow> list_ex (\<lambda>y. same_value_zero y x) ps = (x \<in> set ps)"
  by (induction ps) (auto simp: same_value_zero_string)

lemma getStadiumById_currentMatch [simp]:
  "getStadiumById (s\<lparr>currentMatch := m\<rparr>) ident = getStadiumById s ident"
  by (simp add: getStadiumById_def)

lemma detailBeforeJoinButton_currentMatch [simp]:
  "detailBeforeJoinButton P (s\<lparr>currentMatch := c\<rparr>) m = detailBeforeJoinButton P s m"
  by (simp add: detailBeforeJoinButton_def)

text \<open>
  The loop of the empty slots in closed form: it throws exactly when the placeholders
  do not all fit.
\<close>

lemma appendSlots_closed:
  "appendSlots limit n len =
     (if n = 0 \<or> len + n * emptySlotLength \<le> limit then Inr (len + n * emptySlotLength)
      else Inl RangeError)"
proof (induction n arbitrary: len)
  case 0
  then show ?case by simp
next
  case (Suc n)
  have pos: "0 < emptySlotLength"
    by (simp add: emptySlotLength_def)
  show ?case
    using pos by (auto simp: Suc add.assoc)
qed

text \<open>When the statements before the join button complete, the players are names.\<close>

lemma playerItem_string: "playerItem P x = Inr n \<Longrightarrow> is_string x"
  by (cases x) (simp_all add: playerItem_def)

lemma playerItems_strings: "map_js (playerItem P) ps = Inr items \<Longrightarrow> list_all is_string ps"
  by (induction ps arbitrary: items) (auto split: sum.splits dest: playerItem_string)

lemma detail_players:
  assumes "detailBeforeJoinButton P s m = Inr ps"
  shows "js_get m ''players'' = JArr ps \<and> list_all is_string ps"
  using assms
  by (auto simp: detailBeforeJoinButton_def Let_def
      split: sum.splits if_splits jsval.splits dest: playerItems_strings)

text \<open>
  Claim C4, as amended. For every match that getMatchById finds and every current user
  who is logged in (\<open>currentUser\<close> is not \<open>null\<close>), openMatchDetail does one of two
  things. When the statements before the join button complete, it returns, shows the
  match detail page and leaves the join button in exactly one of three states: the
  disabled \<open>Already Joined\<close> when the user's name is in the players list (whatever the
  status); otherwise the disabled \<open>Match is Full\<close> when the status is \<open>full\<close>;
  otherwise the enabled \<open>Join This Match\<close>. When one of these statements throws, as
  the loop of the empty slots does when its placeholders pass the greatest string
  length, openMatchDetail throws the same error and the join button stays as it was.
\<close>

theorem joinButton_three_states:
  assumes found: "getMatchById s ident = Inr m" "truthy m"
    and user: "\<not> nullish (currentUser s)"
  shows "(\<forall>ps. detailBeforeJoinButton P s m = Inr ps \<longrightarrow>
            js_get m ''players'' = JArr ps \<and>
            (\<exists>s'. openMatchDetail P ident s = (Returned (), s') \<and>
                  currentMatch s' = m \<and> currentPage s' = ''match-detail'' \<and>
                  joinMatchBtn s' =
                    (if js_get (currentUser s) ''name'' \<in> set ps then
                       \<lparr>textContent = AlreadyJoined, opacity = ''0.6'', pointerEvents = ''none''\<rparr>
                     else if js_get m ''status'' = JStr ''full'' then
                       \<lparr>textContent = MatchIsFull, opacity = ''0.6'', pointerEvents = ''none''\<rparr>
                     else
                       \<lparr>textContent = JoinThisMatch, opacity = ''1'', pointerEvents = ''auto''\<rparr>))) \<and>
         (\<forall>e. detailBeforeJoinButton P s m = Inl e \<longrightarrow>
            openMatchDetail P ident s = (Thrown e, s\<lparr>currentMatch := m\<rparr>) \<and>
            joinMatchBtn (snd (openMatchDetail P ident s)) = joinMatchBtn s)"
proof (intro conjI allI impI)
  fix ps
  assume before: "detailBeforeJoinButton P s m = Inr ps"
  have names: "list_all is_string ps"
    using detail_players [OF before] by simp
  show "js_get m ''players'' = JArr ps"
    using detail_players [OF before] by simp
  let ?btn = "if js_get (currentUser s) ''name'' \<in> set ps then
                \<lparr>textContent = AlreadyJoined, opacity = ''0.6'', pointerEvents = ''none''\<rparr>
              else if js_get m ''status'' = JStr ''full'' then
                \<lparr>textContent = MatchIsFull, opacity = ''0.6'', pointerEvents = ''none''\<rparr>
              else
                \<lparr>textContent = JoinThisMatch, opacity = ''1'', pointerEvents = ''auto''\<rparr>"
  have btn: "joinButtonState m ps (currentUser s) = Inr ?btn"
    using user by (simp add: joinButtonState_def read_prop_def includes_strings [OF names])
  have run: "openMatchDetail P ident s =
               (Returned (), navigateTo ''match-detail'' (s\<lparr>currentMatch := m, joinMatchBtn := ?btn\<rparr>))"
    using found before btn by (simp add: openMatchDetail_def Let_def)
  show "\<exists>s'. openMatchDetail P ident s = (Returned (), s') \<and>
             currentMatch s' = m \<and> currentPage s' = ''match-detail'' \<and> joinMatchBtn s' = ?btn"
    unfolding run by (simp add: navigateTo_def emit_def)
next
  fix e
  assume before: "detailBeforeJoinButton P s m = Inl e"
  have run: "openMatchDetail P ident s = (Thrown e, s\<lparr>currentMatch := m\<rparr>)"
    using found before by (simp add: openMatchDetail_def Let_def)
  show "openMatchDetail P ident s = (Thrown e, s\<lparr>currentMatch := m\<rparr>)"
    by (rule run)
  show "joinMatchBtn (snd (openMatchDetail P ident s)) = joinMatchBtn s"
    unfolding run by simp
qed

text \<open>The statements before the join button complete on the two example matches.\<close>

lemma example_details:
  assumes "stadiums s = JArr [exampleStadium, legacyStadium]"
  shows "detailBeforeJoinButton examplePlatform s matchFull = Inr [JStr ''Omar'', JStr ''Ali'']"
    and "detailBeforeJoinButton examplePlatform s matchOpen = Inr [JStr ''Sara'']"
proof -
  have stadium: "getStadiumById s (JStr ''s1'') = Inr exampleStadium"
    using assms by (simp add: getStadiumById_def hasId_def read_prop_def exampleStadium_def)
  have limit: "maxStringLength examplePlatform = 536870888"
    by (simp add: examplePlatform_def)
  show "detailBeforeJoinButton examplePlatform s matchFull = Inr [JStr ''Omar'', JStr ''Ali'']"
    using stadium
    by (simp add: detailBeforeJoinButton_def matchFull_def exampleStadium_def js_or_def lengthOf_def
        playerItem_def playerItemLength_def initials_def limit toNumber_def minusLength_def
        iterations_def emptySlotsLoop_def)
  show "detailBeforeJoinButton examplePlatform s matchOpen = Inr [JStr ''Sara'']"
    using stadium
    by (simp add: detailBeforeJoinButton_def matchOpen_def exampleStadium_def js_or_def lengthOf_def
        playerItem_def playerItemLength_def initials_def limit toNumber_def minusLength_def
        iterations_def emptySlotsLoop_def appendSlots_closed emptySlotLength_def)
qed

text \<open>
  On the example: Ali opens the full match he is in (already joined, although it is
  full), Sara opens the same match (full), Ali opens the open match (join).
\<close>

theorem joinButton_three_states_witness:
  "joinMatchBtn (snd (openMatchDetail examplePlatform (JStr ''m2'') (exampleState\<lparr>currentUser := userAli\<rparr>)))
     = \<lparr>textContent = AlreadyJoined, opacity = ''0.6'', pointerEvents = ''none''\<rparr> \<and>
   joinMatchBtn (snd (openMatchDetail examplePlatform (JStr ''m2'') (exampleState\<lparr>currentUser := userSara\<rparr>)))
     = \<lparr>textContent = MatchIsFull, opacity = ''0.6'', pointerEvents = ''none''\<rparr> \<and>
   joinMatchBtn (snd (openMatchDetail examplePlatform (JStr ''m1'') (exampleState\<lparr>currentUser := userAli\<rparr>)))
     = \<lparr>textContent = JoinThisMatch, opacity = ''1'', pointerEvents = ''auto''\<rparr>"
proof -
  have stads: "stadiums (exampleState\<lparr>currentUser := u\<rparr>) = JArr [exampleStadium, legacyStadium]" for u
    by (simp add: exampleState_def)
  have m2: "getMatchById (exampleState\<lparr>currentUser := u\<rparr>) (JStr ''m2'') = Inr matchFull"
    "truthy matchFull" for u
    by (simp_all add: getMatchById_def exampleState_def hasId_def read_prop_def matchOpen_def matchFull_def)
  have m1: "getMatchById (exampleState\<lparr>currentUser := u\<rparr>) (JStr ''m1'') = Inr matchOpen"
    "truthy matchOpen" for u
    by (simp_all add: getMatchById_def exampleState_def hasId_def read_prop_def matchOpen_def)
  have status: "js_get matchFull ''status'' = JStr ''full''" "js_get matchOpen ''status'' = JStr ''open''"
    by (simp_all add: matchFull_def matchOpen_def)
  have users: "\<not> nullish (currentUser (exampleState\<lparr>currentUser := userAli\<rparr>))"
    "\<not> nullish (currentUser (exampleState\<lparr>currentUser := userSara\<rparr>))"
    "js_get userAli ''name'' = JStr ''Ali''" "js_get userSara ''name'' = JStr ''Sara''"
    by (simp_all add: userAli_def userSara_def)
  have a: "joinMatchBtn (snd (openMatchDetail examplePlatform (JStr ''m2'') (exampleState\<lparr>currentUser := userAli\<rparr>)))
     = \<lparr>textContent = AlreadyJoined, opacity = ''0.6'', pointerEvents = ''none''\<rparr>"
    using joinButton_three_states [OF m2 users(1), of examplePlatform]
      example_details(1) [OF stads] users(3)
    by auto
  have b: "joinMatchBtn (snd (openMatchDetail examplePlatform (JStr ''m2'') (exampleState\<lparr>currentUser := userSara\<rparr>)))
     = \<lparr>textContent = MatchIsFull, opacity = ''0.6'', pointerEvents = ''none''\<rparr>"
    using joinButton_three_states [OF m2 users(2), of examplePlatform]
      example_details(1) [OF stads] users(4) status(1)
    by auto
  have c: "joinMatchBtn (snd (openMatchDetail examplePlatform (JStr ''m1'') (exampleState\<lparr>currentUser := userAli\<rparr>)))
     = \<lparr>textContent = JoinThisMatch, opacity = ''1'', pointerEvents = ''auto''\<rparr>"
    using joinButton_three_states [OF m1 users(1), of examplePlatform]
      example_details(2) [OF stads] users(3) status(2)
    by auto
  show ?thesis using a b c by simp
qed

text \<open>
  The claim as stated (for every match) fails on a match whose grid of players cannot
  be built. Ali opens an open match for ten million players with one player in it:
  the loop of the empty slots appends 153 characters for every free place and passes
  the greatest string length, openMatchDetail throws a RangeError, and the join button
  is not set.
\<close>

theorem joinButton_huge_match_counterexample:
  "getMatchById (exampleState\<lparr>currentUser := userAli, matches := [hugeMatch]\<rparr>) (JStr ''m3'')
     = Inr hugeMatch \<and>
   \<not> nullish (currentUser (exampleState\<lparr>currentUser := userAli, matches := [hugeMatch]\<rparr>)) \<and>
   openMatchDetail examplePlatform (JStr ''m3'')
       (exampleState\<lparr>currentUser := userAli, matches := [hugeMatch]\<rparr>)
     = (Thrown RangeError,
        exampleState\<lparr>currentUser := userAli, matches := [hugeMatch], currentMatch := hugeMatch\<rparr>)"
proof -
  let ?s = "exampleState\<lparr>currentUser := userAli, matches := [hugeMatch]\<rparr>"
  have found: "getMatchById ?s (JStr ''m3'') = Inr hugeMatch" "truthy hugeMatch"
    by (simp_all add: getMatchById_def hasId_def read_prop_def hugeMatch_def)
  have user: "\<not> nullish (currentUser ?s)"
    by (simp add: userAli_def)
  have stadium: "getStadiumById ?s (JStr ''s1'') = Inr exampleStadium"
    by (simp add: exampleState_def getStadiumById_def hasId_def read_prop_def exampleStadium_def)
  have limit: "maxStringLength examplePlatform = 536870888"
    by (simp add: examplePlatform_def)
  have before: "detailBeforeJoinButton examplePlatform ?s hugeMatch = Inl RangeError"
    using stadium
    by (simp add: detailBeforeJoinButton_def hugeMatch_def exampleStadium_def js_or_def lengthOf_def
        playerItem_def playerItemLength_def initials_def limit toNumber_def minusLength_def
        iterations_def emptySlotsLoop_def appendSlots_closed emptySlotLength_def)
  show ?thesis
    using found user before by (simp add: openMatchDetail_def)
qed
section \<open>Operations of a guest\<close>

text \<open>
  Claim C10, as amended. When no user is logged in (\<open>currentUser\<close> is \<open>null\<close>), the
  three operations that read \<open>currentUser.name\<close> without a guard throw a TypeError
  whenever that read is reached:
  \<^item> joinMatchById, for an identifier that converts to a string (as every string does),
    always throws on \<open>currentUser.name\<close>, before any request is made;
  \<^item> renderMatchesList on the \<open>my\<close> tab throws whenever the matches collection is not
    empty: on \<open>currentUser.name\<close> when the first match has a players property, on the
    read of that property or of its \<open>includes\<close> otherwise; with an empty collection it
    draws the empty state and does not throw;
  \<^item> openMatchDetail throws on \<open>currentUser.name\<close> whenever the match is found and the
    statements before the join button complete; when no match has the identifier it
    returns at its guard and does not throw.
  A throw leaves the state as it was, but for \<open>currentMatch\<close>.
\<close>

theorem guest_operations_throw:
  assumes guest: "currentUser s = JNull"
  shows "(convertible ident \<longrightarrow>
            joinMatchById P ident postRes getRes s = (Thrown (CannotRead ''name''), s)) \<and>
         (\<forall>m ms. currentMatchTab s = ''my'' \<and> matches s = m # ms \<longrightarrow>
            renderMatchesList P s =
              (Thrown (if nullish m then CannotRead ''players''
                       else if nullish (js_get m ''players'') then CannotRead ''includes''
                       else CannotRead ''name''), s)) \<and>
         (currentMatchTab s = ''my'' \<and> matches s = [] \<longrightarrow>
            renderMatchesList P s = (Returned (), s\<lparr>matchesList := EmptyState\<rparr>)) \<and>
         (\<forall>m ps. getMatchById s ident = Inr m \<and> truthy m \<and>
                  detailBeforeJoinButton P s m = Inr ps \<longrightarrow>
            openMatchDetail P ident s = (Thrown (CannotRead ''name''), s\<lparr>currentMatch := m\<rparr>)) \<and>
         (\<forall>m. getMatchById s ident = Inr m \<and> \<not> truthy m \<longrightarrow>
            openMatchDetail P ident s = (Returned (), s\<lparr>currentMatch := m\<rparr>))"
proof (intro conjI allI impI)
  assume "convertible ident"
  then show "joinMatchById P ident postRes getRes s = (Thrown (CannotRead ''name''), s)"
    using guest by (simp add: joinMatchById_def read_prop_def)
next
  fix m ms
  assume a: "currentMatchTab s = ''my'' \<and> matches s = m # ms"
  let ?e = "if nullish m then CannotRead ''players''
            else if nullish (js_get m ''players'') then CannotRead ''includes''
            else CannotRead ''name''"
  have "isMine P JNull m = Inl ?e"
    by (simp add: isMine_def read_prop_def)
  then have "filterMatches P s = Inl ?e"
    using a guest by (simp add: filterMatches_def)
  then show "renderMatchesList P s = (Thrown ?e, s)"
    by (simp add: renderMatchesList_def)
next
  assume "currentMatchTab s = ''my'' \<and> matches s = []"
  then show "renderMatchesList P s = (Returned (), s\<lparr>matchesList := EmptyState\<rparr>)"
    by (simp add: renderMatchesList_def filterMatches_def)
next
  fix m ps
  assume a: "getMatchById s ident = Inr m \<and> truthy m \<and> detailBeforeJoinButton P s m = Inr ps"
  have "joinButtonState m ps JNull = Inl (CannotRead ''name'')"
    by (simp add: joinButtonState_def read_prop_def)
  then show "openMatchDetail P ident s = (Thrown (CannotRead ''name''), s\<lparr>currentMatch := m\<rparr>)"
    using a guest by (simp add: openMatchDetail_def Let_def)
next
  fix m
  assume "getMatchById s ident = Inr m \<and> \<not> truthy m"
  then show "openMatchDetail P ident s = (Returned (), s\<lparr>currentMatch := m\<rparr>)"
    by (simp add: openMatchDetail_def Let_def)
qed

text \<open>
  On the example state, whose current user is \<open>null\<close>: the three throws, and the two
  cases without a throw.
\<close>

theorem guest_operations_throw_witness:
  "currentUser exampleState = JNull \<and>
   joinMatchById examplePlatform (JStr ''m1'') matchesResponse matchesResponse exampleState
     = (Thrown (CannotRead ''name''), exampleState) \<and>
   renderMatchesList examplePlatform (exampleState\<lparr>currentMatchTab := ''my''\<rparr>)
     = (Thrown (CannotRead ''name''), exampleState\<lparr>currentMatchTab := ''my''\<rparr>) \<and>
   renderMatchesList examplePlatform (exampleState\<lparr>currentMatchTab := ''my'', matches := []\<rparr>)
     = (Returned (), exampleState\<lparr>currentMatchTab := ''my'', matches := [],
                                  matchesList := EmptyState\<rparr>) \<and>
   openMatchDetail examplePlatform (JStr ''m1'') exampleState
     = (Thrown (CannotRead ''name''), exampleState\<lparr>currentMatch := matchOpen\<rparr>) \<and>
   openMatchDetail examplePlatform (JStr ''m7'') exampleState
     = (Returned (), exampleState\<lparr>currentMatch := JUndefined\<rparr>)"
proof -
  let ?my = "exampleState\<lparr>currentMatchTab := ''my''\<rparr>"
  let ?none = "exampleState\<lparr>currentMatchTab := ''my'', matches := []\<rparr>"
  have guest: "currentUser exampleState = JNull" "currentUser ?my = JNull" "currentUser ?none = JNull"
    by (simp_all add: exampleState_def)
  have ident: "convertible (JStr ''m1'')"
    by simp
  have tab: "currentMatchTab ?my = ''my'' \<and> matches ?my = matchOpen # [matchFull]"
    by (simp add: exampleState_def)
  have players: "\<not> nullish matchOpen" "\<not> nullish (js_get matchOpen ''players'')"
    by (simp_all add: matchOpen_def)
  have empty: "currentMatchTab ?none = ''my'' \<and> matches ?none = []"
    by simp
  have det: "getMatchById exampleState (JStr ''m1'') = Inr matchOpen \<and> truthy matchOpen \<and>
             detailBeforeJoinButton examplePlatform exampleState matchOpen = Inr [JStr ''Sara'']"
    using example_details(2) [of exampleState]
    by (simp add: getMatchById_def exampleState_fields hasId_def read_prop_def)
       (simp add: matchOpen_def)
  have unknown: "getMatchById exampleState (JStr ''m7'') = Inr JUndefined \<and> \<not> truthy JUndefined"
    by (simp add: getMatchById_def exampleState_fields hasId_def read_prop_def matchOpen_def
        matchFull_def)
  note here = guest_operations_throw [OF guest(1), of "JStr ''m1''" examplePlatform
      matchesResponse matchesResponse]
  note my = guest_operations_throw [OF guest(2), of "JStr ''m1''" examplePlatform
      matchesResponse matchesResponse]
  note none = guest_operations_throw [OF guest(3), of "JStr ''m1''" examplePlatform
      matchesResponse matchesResponse]
  note other = guest_operations_throw [OF guest(1), of "JStr ''m7''" examplePlatform
      matchesResponse matchesResponse]
  have a: "joinMatchById examplePlatform (JStr ''m1'') matchesResponse matchesResponse exampleState
     = (Thrown (CannotRead ''name''), exampleState)"
    using here ident by blast
  have b: "renderMatchesList examplePlatform ?my = (Thrown (CannotRead ''name''), ?my)"
    using my [THEN conjunct2, THEN conjunct1, rule_format, OF tab] players by simp
  have c: "renderMatchesList examplePlatform ?none = (Returned (), ?none\<lparr>matchesList := EmptyState\<rparr>)"
    using none empty by blast
  have d: "openMatchDetail examplePlatform (JStr ''m1'') exampleState
     = (Thrown (CannotRead ''name''), exampleState\<lparr>currentMatch := matchOpen\<rparr>)"
    using here det by blast
  have e: "openMatchDetail examplePlatform (JStr ''m7'') exampleState
     = (Returned (), exampleState\<lparr>currentMatch := JUndefined\<rparr>)"
    using other unknown by blast
  show ?thesis
    using guest(1) a b c d e by simp
qed

text \<open>
  The claim as stated (each of the three operations throws whenever no user is logged
  in) fails where the read of \<open>currentUser.name\<close> is not reached: on the \<open>my\<close> tab
  with no matches the filter callback never runs and the empty state is drawn, and
  openMatchDetail for an identifier that no match has returns at its guard.
\<close>

theorem guest_without_matches_counterexample:
  "currentUser (exampleState\<lparr>matches := [], currentMatchTab := ''my''\<rparr>) = JNull \<and>
   renderMatchesList examplePlatform (exampleState\<lparr>matches := [], currentMatchTab := ''my''\<rparr>)
     = (Returned (), exampleState\<lparr>matches := [], currentMatchTab := ''my'', matchesList := EmptyState\<rparr>) \<and>
   currentUser exampleState = JNull \<and>
   openMatchDetail examplePlatform (JStr ''m7'') exampleState
     = (Returned (), exampleState\<lparr>currentMatch := JUndefined\<rparr>)"
  by (simp add: renderMatchesList_def filterMatches_def openMatchDetail_def getMatchById_def
      hasId_def read_prop_def exampleState_def matchOpen_def matchFull_def)
section \<open>The past tab\<close>


lemma getStadiumById_now [simp]: "getStadiumById (s\<lparr>now := c\<rparr>) = getStadiumById s"
  by (rule ext) (simp add: getStadiumById_def)

lemma renderMatchCard_now [simp]: "renderMatchCard (s\<lparr>now := c\<rparr>) = renderMatchCard s"
  by (rule ext) (simp add: renderMatchCard_def split: sum.splits)

lemma filterMatches_now [simp]: "filterMatches P (s\<lparr>now := c\<rparr>) = filterMatches P s"
  by (simp add: filterMatches_def)





section \<open>Joining a match\<close>

lemma apiPost_failure:
  assumes "res = NetworkFailure msg \<or> res = HttpResponse False status body"
  shows "\<exists>m. apiPost P res = JObj [(''error'', JStr m)]"
  using assms by (auto simp: apiPost_def error_object_def Let_def split: sum.splits)

text \<open>
  Every failure of the request makes apiPost return an object, which is truthy, so
  \<open>if (result)\<close> in joinMatchById takes the success branch on it.
\<close>

lemma joinMatchById_on_failure:
  assumes ident: "convertible ident"
    and user: "\<not> nullish (currentUser s)"
    and failure: "postRes = NetworkFailure msg \<or> postRes = HttpResponse False status body"
  shows "joinMatchById P ident postRes getRes s =
           andThen (loadMatches P getRes
                      (showToast (YouJoined (template P JUndefined))
                         (emit (Request ''POST'' (''/matches/'' @ template P ident @ ''/join'')
                                  (JObj [(''playerName'', js_get (currentUser s) ''name'')])) s)))
             (\<lambda>s2. andThen (renderMatchesList P s2) renderHomeMatches)"
proof -
  obtain m where m: "apiPost P postRes = JObj [(''error'', JStr m)]"
    using apiPost_failure [OF failure] by blast
  show ?thesis
    using ident user by (simp add: joinMatchById_def read_prop_def Let_def m)
qed

lemma exampleStadium_found:
  "stadiums s = JArr [exampleStadium, legacyStadium] \<Longrightarrow>
   getStadiumById s (JStr ''s1'') = Inr exampleStadium"
  by (simp add: getStadiumById_def hasId_def read_prop_def exampleStadium_def)

lemma rawMatch_card:
  assumes "stadiums s = JArr [exampleStadium, legacyStadium]"
  shows "renderMatchCard s (normalized P rawMatch) =
           Inr \<lparr>card_match = normalized P rawMatch, card_matchId = JStr ''m9'',
                card_stadium = exampleStadium, card_join = True\<rparr>"
proof -
  have obj: "is_object rawMatch"
    by (simp add: rawMatch_def)
  have fields: "js_get (normalized P rawMatch) ''stadiumId'' = JStr ''s1''"
    "js_get (normalized P rawMatch) ''players'' = JArr [JStr ''Omar'']"
    "js_get (normalized P rawMatch) ''status'' = JStr ''open''"
    "js_get (normalized P rawMatch) ''_id'' = JStr ''m9''"
    by (simp_all add: normalized_fields [OF obj]) (simp_all add: rawMatch_def)
  have "truthy exampleStadium"
    by (simp add: exampleStadium_def)
  then show ?thesis
    using exampleStadium_found [OF assms]
    by (simp add: renderMatchCard_def read_prop_object normalized_fields(5) [OF obj] fields
        playerInitials_def js_or_def)
qed

text \<open>
  Claim C5. The claim is that a failed join request makes the caller take the failure
  branch. The code does not: Sara asks to join the full match \<open>m2\<close>, the server
  answers 400 with \<open>{ error: "Match is full" }\<close>, apiPost returns the error object, and
  joinMatchById shows the success notice (with the title \<open>undefined\<close>), reloads the
  matches and returns; the notice \<open>Could not join match.\<close> is not shown.
\<close>

theorem joinMatchById_failure_shown_as_success:
  "apiPost examplePlatform failedResponse = JObj [(''error'', JStr ''Match is full'')] \<and>
   fst (joinMatchById examplePlatform (JStr ''m2'') failedResponse matchesResponse
          (exampleState\<lparr>currentUser := userSara\<rparr>)) = Returned () \<and>
   trace (snd (joinMatchById examplePlatform (JStr ''m2'') failedResponse matchesResponse
          (exampleState\<lparr>currentUser := userSara\<rparr>))) =
     [Request ''POST'' ''/matches/m2/join'' (JObj [(''playerName'', JStr ''Sara'')]),
      Toast (YouJoined ''undefined''),
      Request ''GET'' ''/matches'' JUndefined]"
proof -
  have post: "apiPost examplePlatform failedResponse = JObj [(''error'', JStr ''Match is full'')]"
    by (simp add: apiPost_def failedResponse_def error_object_def template_def js_or_def)
  have loaded: "apiGet matchesResponse = JArr [rawMatch]"
    by (simp add: matchesResponse_def apiGet_def)
  have objs: "list_all is_object [rawMatch]"
    by (simp add: rawMatch_def)
  have name: "js_get userSara ''name'' = JStr ''Sara''" "\<not> nullish userSara"
    by (simp_all add: userSara_def)
  have status: "notPast (normalized examplePlatform rawMatch) = Inr True"
    using objs normalized_fields(4) [of rawMatch "''status''" examplePlatform]
      normalized_fields(5) [of rawMatch examplePlatform]
    by (simp add: notPast_def read_prop_object) (simp add: rawMatch_def)
  have run: "joinMatchById examplePlatform (JStr ''m2'') failedResponse matchesResponse
          (exampleState\<lparr>currentUser := userSara\<rparr>) =
        andThen (loadMatches examplePlatform matchesResponse
                      (showToast (YouJoined ''undefined'')
                         (emit (Request ''POST'' ''/matches/m2/join''
                                  (JObj [(''playerName'', JStr ''Sara'')]))
                            (exampleState\<lparr>currentUser := userSara\<rparr>))))
             (\<lambda>s2. andThen (renderMatchesList examplePlatform s2) renderHomeMatches)"
    using post name
    by (simp add: joinMatchById_def read_prop_def Let_def examplePlatform_template)
  show ?thesis
    unfolding run loadMatches_array [OF loaded objs]
    using post
    by (simp add: andThen_def renderMatchesList_def renderHomeMatches_def filterMatches_def
        showToast_def emit_def exampleState_fields rawMatch_card status)
qed
section \<open>Creating a match\<close>

text \<open>
  Claim C6. When the number of selected friends plus one exceeds the number entered as
  maxPlayers, createMatch returns after showing one notice and doing nothing else: no
  request is made and the state is otherwise unchanged. The notice is one of the four
  validation notices, and it is \<open>Too many players!\<close> when title, stadium, date and
  time are filled in.
\<close>

theorem createMatch_rejects_overfull:
  assumes entered: "parseInt P (new_match_players (createForm s)) = Some n"
    and over: "int (length (new_match_friends (createForm s))) + 1 > n"
  shows "\<exists>shown. createMatch P postRes getRes s = (Returned (), s\<lparr>trace := trace s @ [Toast shown]\<rparr>) \<and>
           shown \<in> {EnterTitle, SelectStadium, SelectDateTime,
                    TooManyPlayers (template P (JNum (of_int n)))} \<and>
           (trim P (new_match_title (createForm s)) \<noteq> [] \<and>
            new_match_stadium (createForm s) \<noteq> [] \<and>
            new_match_date (createForm s) \<noteq> [] \<and>
            new_match_time (createForm s) \<noteq> []
            \<longrightarrow> shown = TooManyPlayers (template P (JNum (of_int n))))"
proof -
  have many: "tooMany (new_match_friends (createForm s)) (Some n)"
    using over by (simp add: tooMany_def)
  show ?thesis
    using entered many
    by (auto simp: createMatch_def Let_def showToast_def emit_def parsedNumber_def)
qed

text \<open>
  The scenario of the specification: maxPlayers is 4 and four friends are selected.
\<close>

theorem createMatch_rejects_overfull_witness:
  "parseInt examplePlatform (new_match_players (createForm exampleState)) = Some 4 \<and>
   int (length (new_match_friends (createForm exampleState))) + 1 > 4 \<and>
   createMatch examplePlatform matchesResponse matchesResponse exampleState =
     (Returned (), exampleState\<lparr>trace := [Toast (TooManyPlayers ''4'')]\<rparr>)"
proof -
  have entered: "parseInt examplePlatform (new_match_players (createForm exampleState)) = Some 4"
    by (simp add: exampleState_fields exampleForm_def examplePlatform_def)
  have over: "int (length (new_match_friends (createForm exampleState))) + 1 > 4"
    by (simp add: exampleState_fields exampleForm_def)
  have filled: "trim examplePlatform (new_match_title (createForm exampleState)) \<noteq> [] \<and>
            new_match_stadium (createForm exampleState) \<noteq> [] \<and>
            new_match_date (createForm exampleState) \<noteq> [] \<and>
            new_match_time (createForm exampleState) \<noteq> []"
    by (simp add: exampleState_fields exampleForm_def examplePlatform_def)
  have four: "template examplePlatform (JNum (of_int 4)) = ''4''"
    by (simp add: template_def examplePlatform_def)
  obtain shown where
    run: "createMatch examplePlatform matchesResponse matchesResponse exampleState =
            (Returned (), exampleState\<lparr>trace := trace exampleState @ [Toast shown]\<rparr>)"
    and shown: "shown = TooManyPlayers (template examplePlatform (JNum (of_int 4)))"
    using createMatch_rejects_overfull [OF entered over, of matchesResponse matchesResponse] filled
    by blast
  show ?thesis
    using entered over run unfolding shown four by (simp add: exampleState_fields)
qed

section \<open>Logging in\<close>
















section \<open>Closing a modal\<close>

text \<open>
  Claim C9. On every modal, whatever its handlers, \<open>_removeModalHandlers\<close> returns
  without throwing and leaves the modal marked \<open>aria-hidden="true"\<close> with its three
  stored references cleared; called again on the modal it has closed (the references
  are \<open>null\<close>), it returns without throwing and changes nothing, and so does
  closeCreateMatchModal.
\<close>

theorem removeModalHandlers_idempotent:
  "\<exists>m' d'. removeModalHandlers (Some m) d = Inr (m', d') \<and>
      ariaHidden m' = Some ''true'' \<and>
      overlayClick m' = None \<and> keyHandler m' = None \<and> previouslyFocused m' = None \<and>
      removeModalHandlers (Some m') d' = Inr (m', d') \<and>
      closeCreateMatchModal (Some m') d' = Inr (m'\<lparr>visibleClass := False\<rparr>, d')"
  by (simp add: removeModalHandlers_def closeCreateMatchModal_def Let_def
      split: option.splits)

text \<open>
  On the example: closing the open modal removes its two listeners and gives the focus
  back; closing it again leaves the modal and the document as they are.
\<close>

theorem removeModalHandlers_idempotent_witness:
  "removeModalHandlers (Some openModal) openDocument =
     Inr (\<lparr>visibleClass = True, ariaHidden = Some ''true'', overlayClick = None,
           keyHandler = None, previouslyFocused = None, mousedownListeners = []\<rparr>,
          \<lparr>keydownListeners = [5],
           activeElement = Some \<lparr>elementId = 7, hasFocusMethod = True, takesFocus = True\<rparr>\<rparr>) \<and>
   removeModalHandlers
     (Some \<lparr>visibleClass = True, ariaHidden = Some ''true'', overlayClick = None,
           keyHandler = None, previouslyFocused = None, mousedownListeners = []\<rparr>)
     \<lparr>keydownListeners = [5],
      activeElement = Some \<lparr>elementId = 7, hasFocusMethod = True, takesFocus = True\<rparr>\<rparr> =
     Inr (\<lparr>visibleClass = True, ariaHidden = Some ''true'', overlayClick = None,
           keyHandler = None, previouslyFocused = None, mousedownListeners = []\<rparr>,
          \<lparr>keydownListeners = [5],
           activeElement = Some \<lparr>elementId = 7, hasFocusMethod = True, takesFocus = True\<rparr>\<rparr>)"
proof -
  have first: "removeModalHandlers (Some openModal) openDocument =
     Inr (\<lparr>visibleClass = True, ariaHidden = Some ''true'', overlayClick = None,
           keyHandler = None, previouslyFocused = None, mousedownListeners = []\<rparr>,
          \<lparr>keydownListeners = [5],
           activeElement = Some \<lparr>elementId = 7, hasFocusMethod = True, takesFocus = True\<rparr>\<rparr>)"
    by (simp add: removeModalHandlers_def openModal_def openDocument_def)
  obtain m' d' where run: "removeModalHandlers (Some openModal) openDocument = Inr (m', d')"
    and again: "removeModalHandlers (Some m') d' = Inr (m', d')"
    using removeModalHandlers_idempotent [of openModal openDocument] by blast
  show ?thesis
    using first run again by simp
qed

end
